theory Spec2Isabelle
  imports Complex_Main
begin

section \<open>JavaScript numbers\<close>

text \<open>
  A JavaScript \<open>number\<close> is modelled as an exact real, extended with the three special
  values of IEEE arithmetic that the component can produce: \<open>Infinity\<close>, \<open>-Infinity\<close> and
  \<open>NaN\<close>. Rounding of finite results is not modelled. Signed zeros are not modelled either:
  the only divisor of the component that can be zero is \<open>timeDiff\<close>, the difference of two
  integer millisecond counts over 1000, which is \<open>+0\<close> whenever it is zero, so a zero
  divisor is read as \<open>+0\<close>.
\<close>

datatype jsnum = Fin real | PInf | NInf | NaN

fun js_neg :: "jsnum \<Rightarrow> jsnum" where
  "js_neg (Fin a) = Fin (- a)"
| "js_neg PInf = NInf"
| "js_neg NInf = PInf"
| "js_neg NaN = NaN"

fun js_add :: "jsnum \<Rightarrow> jsnum \<Rightarrow> jsnum" where
  "js_add (Fin a) (Fin b) = Fin (a + b)"
| "js_add (Fin a) PInf = PInf"
| "js_add (Fin a) NInf = NInf"
| "js_add (Fin a) NaN = NaN"
| "js_add PInf (Fin b) = PInf"
| "js_add PInf PInf = PInf"
| "js_add PInf NInf = NaN"
| "js_add PInf NaN = NaN"
| "js_add NInf (Fin b) = NInf"
| "js_add NInf PInf = NaN"
| "js_add NInf NInf = NInf"
| "js_add NInf NaN = NaN"
| "js_add NaN y = NaN"

definition js_sub :: "jsnum \<Rightarrow> jsnum \<Rightarrow> jsnum" where
  "js_sub x y = js_add x (js_neg y)"

fun js_mul :: "jsnum \<Rightarrow> jsnum \<Rightarrow> jsnum" where
  "js_mul (Fin a) (Fin b) = Fin (a * b)"
| "js_mul (Fin a) PInf = (if a = 0 then NaN else if 0 < a then PInf else NInf)"
| "js_mul (Fin a) NInf = (if a = 0 then NaN else if 0 < a then NInf else PInf)"
| "js_mul (Fin a) NaN = NaN"
| "js_mul PInf (Fin b) = (if b = 0 then NaN else if 0 < b then PInf else NInf)"
| "js_mul PInf PInf = PInf"
| "js_mul PInf NInf = NInf"
| "js_mul PInf NaN = NaN"
| "js_mul NInf (Fin b) = (if b = 0 then NaN else if 0 < b then NInf else PInf)"
| "js_mul NInf PInf = NInf"
| "js_mul NInf NInf = PInf"
| "js_mul NInf NaN = NaN"
| "js_mul NaN y = NaN"

fun js_div :: "jsnum \<Rightarrow> jsnum \<Rightarrow> jsnum" where
  "js_div (Fin a) (Fin b) =
     (if b = 0 then (if a = 0 then NaN else if 0 < a then PInf else NInf) else Fin (a / b))"
| "js_div (Fin a) PInf = Fin 0"
| "js_div (Fin a) NInf = Fin 0"
| "js_div (Fin a) NaN = NaN"
| "js_div PInf (Fin b) = (if 0 \<le> b then PInf else NInf)"
| "js_div PInf PInf = NaN"
| "js_div PInf NInf = NaN"
| "js_div PInf NaN = NaN"
| "js_div NInf (Fin b) = (if 0 \<le> b then NInf else PInf)"
| "js_div NInf PInf = NaN"
| "js_div NInf NInf = NaN"
| "js_div NInf NaN = NaN"
| "js_div NaN y = NaN"

text \<open>\<open>Math.min\<close>: \<open>NaN\<close> as soon as one argument is \<open>NaN\<close>.\<close>

fun js_min :: "jsnum \<Rightarrow> jsnum \<Rightarrow> jsnum" where
  "js_min (Fin a) (Fin b) = Fin (min a b)"
| "js_min (Fin a) PInf = Fin a"
| "js_min (Fin a) NInf = NInf"
| "js_min (Fin a) NaN = NaN"
| "js_min PInf (Fin b) = Fin b"
| "js_min PInf PInf = PInf"
| "js_min PInf NInf = NInf"
| "js_min PInf NaN = NaN"
| "js_min NInf (Fin b) = NInf"
| "js_min NInf PInf = NInf"
| "js_min NInf NInf = NInf"
| "js_min NInf NaN = NaN"
| "js_min NaN y = NaN"

text \<open>The comparisons \<open>>\<close> and \<open>>=\<close>: false as soon as one argument is \<open>NaN\<close>.\<close>

fun js_gt :: "jsnum \<Rightarrow> jsnum \<Rightarrow> bool" where
  "js_gt (Fin a) (Fin b) = (b < a)"
| "js_gt (Fin a) PInf = False"
| "js_gt (Fin a) NInf = True"
| "js_gt (Fin a) NaN = False"
| "js_gt PInf (Fin b) = True"
| "js_gt PInf PInf = False"
| "js_gt PInf NInf = True"
| "js_gt PInf NaN = False"
| "js_gt NInf y = False"
| "js_gt NaN y = False"

fun js_ge :: "jsnum \<Rightarrow> jsnum \<Rightarrow> bool" where
  "js_ge (Fin a) (Fin b) = (b \<le> a)"
| "js_ge (Fin a) PInf = False"
| "js_ge (Fin a) NInf = True"
| "js_ge (Fin a) NaN = False"
| "js_ge PInf (Fin b) = True"
| "js_ge PInf PInf = True"
| "js_ge PInf NInf = True"
| "js_ge PInf NaN = False"
| "js_ge NInf (Fin b) = False"
| "js_ge NInf PInf = False"
| "js_ge NInf NInf = True"
| "js_ge NInf NaN = False"
| "js_ge NaN y = False"

fun js_sin :: "jsnum \<Rightarrow> jsnum" where
  "js_sin (Fin a) = Fin (sin a)"
| "js_sin PInf = NaN"
| "js_sin NInf = NaN"
| "js_sin NaN = NaN"

fun js_cos :: "jsnum \<Rightarrow> jsnum" where
  "js_cos (Fin a) = Fin (cos a)"
| "js_cos PInf = NaN"
| "js_cos NInf = NaN"
| "js_cos NaN = NaN"

fun js_sqrt :: "jsnum \<Rightarrow> jsnum" where
  "js_sqrt (Fin a) = (if a < 0 then NaN else Fin (sqrt a))"
| "js_sqrt PInf = PInf"
| "js_sqrt NInf = NaN"
| "js_sqrt NaN = NaN"

text \<open>
  The two-argument arctangent on the reals: the angle of the point \<open>(x, y)\<close>, in
  \<open>(-pi, pi]\<close>, and 0 at the origin.
\<close>

definition atan2 :: "real \<Rightarrow> real \<Rightarrow> real" where
  "atan2 y x =
     (if 0 < x then arctan (y / x)
      else if x < 0 then (if 0 \<le> y then arctan (y / x) + pi else arctan (y / x) - pi)
      else if 0 < y then pi / 2
      else if y < 0 then - (pi / 2)
      else 0)"

fun js_atan2 :: "jsnum \<Rightarrow> jsnum \<Rightarrow> jsnum" where
  "js_atan2 (Fin y) (Fin x) = Fin (atan2 y x)"
| "js_atan2 (Fin y) PInf = Fin 0"
| "js_atan2 (Fin y) NInf = (if 0 \<le> y then Fin pi else Fin (- pi))"
| "js_atan2 (Fin y) NaN = NaN"
| "js_atan2 PInf (Fin x) = Fin (pi / 2)"
| "js_atan2 PInf PInf = Fin (pi / 4)"
| "js_atan2 PInf NInf = Fin (3 * pi / 4)"
| "js_atan2 PInf NaN = NaN"
| "js_atan2 NInf (Fin x) = Fin (- (pi / 2))"
| "js_atan2 NInf PInf = Fin (- (pi / 4))"
| "js_atan2 NInf NInf = Fin (- (3 * pi / 4))"
| "js_atan2 NInf NaN = NaN"
| "js_atan2 NaN x = NaN"

section \<open>The great-circle distance\<close>

text \<open>\<open>haversineDistance\<close> of \<open>MapComponent.tsx\<close>, with its local constants.\<close>

definition toRad :: "jsnum \<Rightarrow> jsnum" where
  "toRad x = js_div (js_mul x (Fin pi)) (Fin 180)"

definition haversineDistance :: "jsnum \<Rightarrow> jsnum \<Rightarrow> jsnum \<Rightarrow> jsnum \<Rightarrow> jsnum" where
  "haversineDistance lat1 lon1 lat2 lon2 =
     (let R = Fin 6371000;
          dLat = toRad (js_sub lat2 lat1);
          dLon = toRad (js_sub lon2 lon1);
          a = js_add
                (js_mul (js_sin (js_div dLat (Fin 2))) (js_sin (js_div dLat (Fin 2))))
                (js_mul
                  (js_mul
                    (js_mul (js_cos (toRad lat1)) (js_cos (toRad lat2)))
                    (js_sin (js_div dLon (Fin 2))))
                  (js_sin (js_div dLon (Fin 2))));
          c = js_mul (Fin 2) (js_atan2 (js_sqrt a) (js_sqrt (js_sub (Fin 1) a)))
      in js_mul R c)"

text \<open>
  The value of \<open>a\<close> in \<open>haversineDistance\<close> at finite arguments, as a real.
\<close>

definition hav_a :: "real \<Rightarrow> real \<Rightarrow> real \<Rightarrow> real \<Rightarrow> real" where
  "hav_a lat1 lon1 lat2 lon2 =
     sin ((lat2 - lat1) * pi / 180 / 2) * sin ((lat2 - lat1) * pi / 180 / 2)
     + cos (lat1 * pi / 180) * cos (lat2 * pi / 180)
       * sin ((lon2 - lon1) * pi / 180 / 2) * sin ((lon2 - lon1) * pi / 180 / 2)"

section \<open>The component state\<close>

text \<open>
  A \<open>LocationPoint\<close> of the route file. The coordinates are JSON numbers. The timestamp
  string is used only through \<open>new Date(timestamp)\<close>; it is represented by the instant it
  parses to, in integer milliseconds since the epoch, and by \<open>None\<close> when it does not
  parse (an invalid date, whose \<open>getTime()\<close> is \<open>NaN\<close>).
\<close>

record LocationPoint =
  latitude :: real
  longitude :: real
  timestamp :: "int option"

text \<open>
  The state of \<open>MapComponent\<close>: its six \<open>useState\<close> cells and its refs.
  \<open>animationPending\<close> stands for \<open>animationRef\<close> together with the browser's frame
  queue: it holds when the frame callback requested last is still outstanding (requested,
  not yet run and not cancelled). A ref that holds \<open>null\<close> is \<open>None\<close>;
  \<open>lastTimestampRef\<close> holds an ISO string produced by \<open>toISOString\<close>, represented by
  the instant it denotes.
\<close>

record component =
  route :: "LocationPoint list"
  currentIndex :: nat
  playing :: bool
  elapsedTime :: jsnum
  distanceTravelled :: jsnum
  speed :: jsnum
  animationPending :: bool
  startTimeRef :: "int option"
  lastTimestampRef :: "int option"
  lastPositionRef :: "(jsnum \<times> jsnum) option"
  progressRef :: jsnum

datatype error = RangeError

text \<open>The state after the first render: the initial values of the hooks.\<close>

definition mounted :: component where
  "mounted =
     \<lparr>route = [], currentIndex = 0, playing = False, elapsedTime = Fin 0,
      distanceTravelled = Fin 0, speed = Fin 0, animationPending = False,
      startTimeRef = None, lastTimestampRef = None, lastPositionRef = None,
      progressRef = Fin 0\<rparr>"

section \<open>The frame callback\<close>

text \<open>\<open>new Date(timestamp).getTime()\<close>.\<close>

definition getTime :: "int option \<Rightarrow> jsnum" where
  "getTime t = (case t of None \<Rightarrow> NaN | Some ms \<Rightarrow> Fin (real_of_int ms))"

text \<open>
  The local constants of \<open>animate\<close>, as functions of the clock reading \<open>currentTime\<close>
  and of the state the callback starts in. \<open>startTime\<close> is the value of
  \<open>startTimeRef.current\<close> after the line
  \<open>if (!startTimeRef.current) startTimeRef.current = currentTime\<close>, where \<open>null\<close> and 0
  are both falsy. \<open>animate\<close> reads \<open>route[currentIndex]\<close> and
  \<open>route[currentIndex + 1]\<close> only after it has checked that the second exists, and so
  does every statement below that uses these constants.
\<close>

definition startTime :: "int \<Rightarrow> component \<Rightarrow> int" where
  "startTime currentTime s =
     (case startTimeRef s of
        None \<Rightarrow> currentTime
      | Some t \<Rightarrow> if t = 0 then currentTime else t)"

definition elapsed :: "int \<Rightarrow> component \<Rightarrow> jsnum" where
  "elapsed currentTime s =
     js_div (js_sub (Fin (real_of_int currentTime)) (Fin (real_of_int (startTime currentTime s))))
       (Fin 1000)"

definition timeDiff :: "LocationPoint \<Rightarrow> LocationPoint \<Rightarrow> jsnum" where
  "timeDiff current next =
     js_div (js_sub (getTime (timestamp next)) (getTime (timestamp current))) (Fin 1000)"

definition segmentElapsed :: "int \<Rightarrow> component \<Rightarrow> jsnum" where
  "segmentElapsed currentTime s =
     js_sub (elapsed currentTime s)
       (js_mul (Fin (real (currentIndex s)))
          (timeDiff (route s ! currentIndex s) (route s ! (currentIndex s + 1))))"

definition progress :: "int \<Rightarrow> component \<Rightarrow> jsnum" where
  "progress currentTime s =
     js_min
       (js_div (segmentElapsed currentTime s)
          (timeDiff (route s ! currentIndex s) (route s ! (currentIndex s + 1))))
       (Fin 1)"

text \<open>
  The interpolation written twice in the component, in \<open>animate\<close> and in the render:
  \<open>current.latitude + (next.latitude - current.latitude) * progress\<close>, and the same
  for the longitude.
\<close>

definition interpolate :: "LocationPoint \<Rightarrow> LocationPoint \<Rightarrow> jsnum \<Rightarrow> jsnum \<times> jsnum" where
  "interpolate current next p =
     (js_add (Fin (latitude current))
        (js_mul (js_sub (Fin (latitude next)) (Fin (latitude current))) p),
      js_add (Fin (longitude current))
        (js_mul (js_sub (Fin (longitude next)) (Fin (longitude current))) p))"

definition position :: "int \<Rightarrow> component \<Rightarrow> jsnum \<times> jsnum" where
  "position currentTime s =
     interpolate (route s ! currentIndex s) (route s ! (currentIndex s + 1))
       (progress currentTime s)"

text \<open>
  \<open>secDiff\<close>: the clock reading minus the instant of \<open>lastTimestampRef\<close>, or minus the
  clock reading itself when the ref is \<open>null\<close>, in seconds.
\<close>

definition secDiff :: "int \<Rightarrow> component \<Rightarrow> jsnum" where
  "secDiff currentTime s =
     js_div
       (js_sub (Fin (real_of_int currentTime))
          (case lastTimestampRef s of
             None \<Rightarrow> Fin (real_of_int currentTime)
           | Some ms \<Rightarrow> getTime (Some ms)))
       (Fin 1000)"

text \<open>
  \<open>animate\<close>. Its two calls of \<open>Date.now()\<close> are the arguments \<open>currentTime\<close> and
  \<open>advanceTime\<close>. The state setters are applied where they are called; the functional
  updates read the state the callback starts in, which is the current one because the callback
  is rebuilt, and the frame requested again, whenever \<open>playing\<close>, \<open>currentIndex\<close> or
  \<open>route\<close> changes. \<open>route[currentIndex + 1]\<close> is \<open>undefined\<close> exactly when the index is
  past the end; \<open>route[currentIndex]\<close> is then read only when it exists.
  \<open>new Date(current.timestamp).toISOString()\<close> throws \<open>RangeError\<close> on an invalid date:
  the callback stops there, after the setters and ref writes before it, and requests no frame.
\<close>

definition animate :: "int \<Rightarrow> int \<Rightarrow> component \<Rightarrow> error option \<times> component" where
  "animate currentTime advanceTime s =
     (if \<not> playing s \<or> route s = [] then (None, s)
      else if \<not> currentIndex s + 1 < length (route s) then (None, s\<lparr>playing := False\<rparr>)
      else
        let current = route s ! currentIndex s;
            s1 = s\<lparr>startTimeRef := Some (startTime currentTime s),
                   elapsedTime := elapsed currentTime s,
                   progressRef := progress currentTime s\<rparr>;
            (lat, lng) = position currentTime s;
            s2 = (case lastPositionRef s of
                    None \<Rightarrow> s1
                  | Some (lastLat, lastLng) \<Rightarrow>
                      let dist = haversineDistance lastLat lastLng lat lng
                      in s1\<lparr>distanceTravelled := js_add (distanceTravelled s) dist,
                            speed := (if js_gt (secDiff currentTime s) (Fin 0)
                                      then js_div dist (secDiff currentTime s)
                                      else speed s)\<rparr>);
            s3 = s2\<lparr>lastPositionRef := Some (lat, lng)\<rparr>
        in case timestamp current of
             None \<Rightarrow> (Some RangeError, s3)
           | Some ms \<Rightarrow>
               let s4 = s3\<lparr>lastTimestampRef := Some ms\<rparr>;
                   s5 = (if js_ge (progress currentTime s) (Fin 1)
                         then s4\<lparr>currentIndex :=
                                   min (currentIndex s + 1) (length (route s) - 1),
                                 progressRef := Fin 0,
                                 startTimeRef := Some advanceTime\<rparr>
                         else s4)
               in (None, s5\<lparr>animationPending := True\<rparr>))"

section \<open>Effects\<close>

text \<open>
  The effect with dependencies \<open>[playing, route]\<close>: when the component is not playing, it
  puts the state cells and the refs back to their initial values and cancels the frame.
\<close>

definition resetEffect :: "component \<Rightarrow> component" where
  "resetEffect s =
     (if \<not> playing s
      then s\<lparr>currentIndex := 0, elapsedTime := Fin 0, distanceTravelled := Fin 0,
             speed := Fin 0, progressRef := Fin 0, lastTimestampRef := None,
             lastPositionRef := None, animationPending := False\<rparr>
      else s)"

text \<open>
  The effect with dependencies \<open>[playing, animate]\<close>, and its cleanup, which cancels the
  frame.
\<close>

definition frameEffect :: "component \<Rightarrow> component" where
  "frameEffect s =
     (if playing s then s\<lparr>startTimeRef := None, animationPending := True\<rparr>
      else s\<lparr>animationPending := False\<rparr>)"

definition frameCleanup :: "component \<Rightarrow> component" where
  "frameCleanup s = s\<lparr>animationPending := False\<rparr>"

text \<open>
  One commit: \<open>prev\<close> is the state of the previous render and \<open>s\<close> the state rendered
  now. An effect runs when one of its dependencies differs from the previous render;
  \<open>animate\<close> is a \<open>useCallback\<close> over \<open>[playing, currentIndex, route]\<close>. Cleanups run
  before effect bodies, and bodies in the order of the source. The route is compared by
  value.
\<close>

definition commit :: "component \<Rightarrow> component \<Rightarrow> component" where
  "commit prev s =
     (let resetDeps = (playing prev \<noteq> playing s \<or> route prev \<noteq> route s);
          frameDeps = (playing prev \<noteq> playing s \<or> currentIndex prev \<noteq> currentIndex s
                       \<or> route prev \<noteq> route s);
          s1 = (if frameDeps then frameCleanup s else s);
          s2 = (if resetDeps then resetEffect s1 else s1)
      in if frameDeps then frameEffect s2 else s2)"

text \<open>
  The setters called by the first commit's effects cause one more render and commit; after
  it no dependency changes any more (\<open>settle_stable\<close> below).
\<close>

definition settle :: "component \<Rightarrow> component \<Rightarrow> component" where
  "settle prev s = commit s (commit prev s)"

section \<open>Events\<close>

text \<open>The \<open>fetch\<close> of the route file resolves: \<open>setRoute(data)\<close>.\<close>

definition routeFetched :: "LocationPoint list \<Rightarrow> component \<Rightarrow> component" where
  "routeFetched allData s = settle s (s\<lparr>route := allData\<rparr>)"

text \<open>The Play/Pause button: \<open>setPlaying(!playing)\<close>.\<close>

definition clickPlayPause :: "component \<Rightarrow> component" where
  "clickPlayPause s = settle s (s\<lparr>playing := \<not> playing s\<rparr>)"

text \<open>The Reset button.\<close>

definition clickReset :: "component \<Rightarrow> component" where
  "clickReset s =
     settle s
       (s\<lparr>playing := False, currentIndex := 0, elapsedTime := Fin 0,
          distanceTravelled := Fin 0, speed := Fin 0, progressRef := Fin 0,
          lastTimestampRef := None, lastPositionRef := None\<rparr>)"

text \<open>The browser runs the outstanding frame callback, then React renders and commits.\<close>

definition frame :: "int \<Rightarrow> int \<Rightarrow> component \<Rightarrow> error option \<times> component" where
  "frame currentTime advanceTime s =
     (let (e, s') = animate currentTime advanceTime (s\<lparr>animationPending := False\<rparr>)
      in (e, settle s s'))"

text \<open>
  What can happen to a component whose route has been fetched. The buttons are rendered only
  when the route is not empty, and a frame callback runs only when it is outstanding.
\<close>

datatype event = ClickPlayPause | ClickReset | Frame int int

fun step :: "event \<Rightarrow> component \<Rightarrow> component" where
  "step ClickPlayPause s = (if route s = [] then s else clickPlayPause s)"
| "step ClickReset s = (if route s = [] then s else clickReset s)"
| "step (Frame currentTime advanceTime) s =
     (if animationPending s then snd (frame currentTime advanceTime s) else s)"

fun run :: "event list \<Rightarrow> component \<Rightarrow> component" where
  "run [] s = s"
| "run (e # es) s = run es (step e s)"

text \<open>The component after mounting and fetching the route \<open>allData\<close>.\<close>

definition loaded :: "LocationPoint list \<Rightarrow> component" where
  "loaded allData = routeFetched allData mounted"

section \<open>The stopped component\<close>

text \<open>What the effect for the stopped component leaves behind.\<close>

definition zeroed :: "component \<Rightarrow> bool" where
  "zeroed s =
     (currentIndex s = 0 \<and> elapsedTime s = Fin 0 \<and> distanceTravelled s = Fin 0 \<and>
      speed s = Fin 0 \<and> progressRef s = Fin 0 \<and> lastTimestampRef s = None \<and>
      lastPositionRef s = None \<and> \<not> animationPending s)"

section \<open>Sample sessions\<close>

text \<open>
  Three waypoints on the equator, one second apart (from 2023-11-14T22:13:20Z), played
  with clock readings from 1800000000000 on (2027-01-15T08:00:00Z): play, a first frame, a
  frame one second later, and a frame 16 ms after that.
\<close>

definition demoRoute :: "LocationPoint list" where
  "demoRoute =
     [\<lparr>latitude = 0, longitude = 0, timestamp = Some 1700000000000\<rparr>,
      \<lparr>latitude = 0, longitude = 180, timestamp = Some 1700000001000\<rparr>,
      \<lparr>latitude = 0, longitude = 0, timestamp = Some 1700000002000\<rparr>]"

definition demo1 :: component where
  "demo1 = step ClickPlayPause (loaded demoRoute)"

definition demo2 :: component where
  "demo2 = step (Frame 1800000000000 1800000000000) demo1"

definition demo3 :: component where
  "demo3 = step (Frame 1800000001000 1800000001000) demo2"

definition demo4 :: component where
  "demo4 = step (Frame 1800000001016 1800000001016) demo3"

text \<open>The same session on the first two waypoints only.\<close>

definition pairRoute :: "LocationPoint list" where
  "pairRoute =
     [\<lparr>latitude = 0, longitude = 0, timestamp = Some 1700000000000\<rparr>,
      \<lparr>latitude = 0, longitude = 180, timestamp = Some 1700000001000\<rparr>]"

definition pair1 :: component where
  "pair1 = step ClickPlayPause (loaded pairRoute)"

definition pair2 :: component where
  "pair2 = step (Frame 1800000000000 1800000000000) pair1"

definition pair3 :: component where
  "pair3 = step (Frame 1800000001000 1800000001000) pair2"

definition pair4 :: component where
  "pair4 = step (Frame 1800000001016 1800000001016) pair3"

text \<open>Two waypoints that share their timestamp.\<close>

definition sameRoute :: "LocationPoint list" where
  "sameRoute =
     [\<lparr>latitude = 0, longitude = 0, timestamp = Some 1700000000000\<rparr>,
      \<lparr>latitude = 0, longitude = 180, timestamp = Some 1700000000000\<rparr>]"

definition same1 :: component where
  "same1 = step ClickPlayPause (loaded sameRoute)"

definition same2 :: component where
  "same2 = step (Frame 1800000000000 1800000000000) same1"

definition same3 :: component where
  "same3 = step (Frame 1800000001000 1800000001000) same2"

text \<open>Two waypoints whose timestamps go backwards by one second.\<close>

definition backRoute :: "LocationPoint list" where
  "backRoute =
     [\<lparr>latitude = 0, longitude = 0, timestamp = Some 1700000001000\<rparr>,
      \<lparr>latitude = 0, longitude = 180, timestamp = Some 1700000000000\<rparr>]"

definition back1 :: component where
  "back1 = step ClickPlayPause (loaded backRoute)"

definition back2 :: component where
  "back2 = step (Frame 1800000000000 1800000000000) back1"

definition back3 :: component where
  "back3 = step (Frame 1800000001000 1800000001000) back2"


section \<open>The frame of a running component, in one update\<close>

text \<open>
  The writes of \<open>animate\<close> up to the assignment of \<open>lastPositionRef\<close>, for a component
  that is playing and has a next waypoint, as one update of the state the frame starts in
  (\<open>step_frame_running\<close> below relates it to \<open>step\<close>).
\<close>

definition sampled :: "int \<Rightarrow> component \<Rightarrow> component" where
  "sampled t s =
     s\<lparr>startTimeRef := Some (startTime t s), elapsedTime := elapsed t s,
       progressRef := progress t s,
       distanceTravelled :=
         (case lastPositionRef s of
            None \<Rightarrow> distanceTravelled s
          | Some p \<Rightarrow>
              js_add (distanceTravelled s)
                (haversineDistance (fst p) (snd p) (fst (position t s)) (snd (position t s)))),
       speed :=
         (case lastPositionRef s of
            None \<Rightarrow> speed s
          | Some p \<Rightarrow>
              if js_gt (secDiff t s) (Fin 0)
              then js_div
                     (haversineDistance (fst p) (snd p) (fst (position t s)) (snd (position t s)))
                     (secDiff t s)
              else speed s),
       lastPositionRef := Some (position t s), animationPending := False\<rparr>"

section \<open>Binary64 arithmetic\<close>

text \<open>
  The sections above compute on the reals. A JavaScript number is a binary64 double, and an
  arithmetic operation returns the exact result rounded to the nearest double, a tie going to
  the even significand (IEEE 754, round to nearest even). \<open>ulp x\<close> is the distance between
  the doubles around \<open>x\<close>: 52 binary places below the exponent of \<open>x\<close>, and
  \<open>2 ^ -1074\<close> from the least normal exponent down. \<open>rnd\<close> rounds with the exponent
  unbounded above, and \<open>fl\<close> turns a result of magnitude \<open>2 ^ 1024\<close> or more into an
  infinity. The two zeros are not told apart.
\<close>

definition round_even :: "real \<Rightarrow> int" where
  "round_even y =
     (if y - of_int \<lfloor>y\<rfloor> < 1 / 2 then \<lfloor>y\<rfloor>
      else if 1 / 2 < y - of_int \<lfloor>y\<rfloor> then \<lfloor>y\<rfloor> + 1
      else if even \<lfloor>y\<rfloor> then \<lfloor>y\<rfloor> else \<lfloor>y\<rfloor> + 1)"

definition ulp :: "real \<Rightarrow> real" where
  "ulp x = 2 powr real_of_int (max \<lfloor>log 2 \<bar>x\<bar>\<rfloor> (- 1022) - 52)"

definition rnd :: "real \<Rightarrow> real" where
  "rnd x = (if x = 0 then 0 else real_of_int (round_even (x / ulp x)) * ulp x)"

definition fl :: "real \<Rightarrow> jsnum" where
  "fl x =
     (if 2 ^ 1024 \<le> rnd x then PInf
      else if rnd x \<le> - (2 ^ 1024) then NInf
      else Fin (rnd x))"

text \<open>\<open>isDouble x\<close>: the real \<open>x\<close> is a double.\<close>

definition isDouble :: "real \<Rightarrow> bool" where
  "isDouble x = (fl x = Fin x)"

text \<open>
  The operations on doubles: the exact operation of the first section, then one rounding.
  \<open>Math.sqrt\<close> is correctly rounded by IEEE 754; \<open>Math.sin\<close>, \<open>Math.cos\<close> and
  \<open>Math.atan2\<close> are taken to be correctly rounded as well.
\<close>

definition r64 :: "jsnum \<Rightarrow> jsnum" where
  "r64 x = (case x of Fin a \<Rightarrow> fl a | PInf \<Rightarrow> PInf | NInf \<Rightarrow> NInf | NaN \<Rightarrow> NaN)"

definition add64 :: "jsnum \<Rightarrow> jsnum \<Rightarrow> jsnum" where
  "add64 x y = r64 (js_add x y)"

definition sub64 :: "jsnum \<Rightarrow> jsnum \<Rightarrow> jsnum" where
  "sub64 x y = r64 (js_sub x y)"

definition mul64 :: "jsnum \<Rightarrow> jsnum \<Rightarrow> jsnum" where
  "mul64 x y = r64 (js_mul x y)"

definition div64 :: "jsnum \<Rightarrow> jsnum \<Rightarrow> jsnum" where
  "div64 x y = r64 (js_div x y)"

definition sin64 :: "jsnum \<Rightarrow> jsnum" where
  "sin64 x = r64 (js_sin x)"

definition cos64 :: "jsnum \<Rightarrow> jsnum" where
  "cos64 x = r64 (js_cos x)"

definition sqrt64 :: "jsnum \<Rightarrow> jsnum" where
  "sqrt64 x = r64 (js_sqrt x)"

definition atan2_64 :: "jsnum \<Rightarrow> jsnum \<Rightarrow> jsnum" where
  "atan2_64 y x = r64 (js_atan2 y x)"

text \<open>\<open>Math.PI\<close>, the double 3.141592653589793, and \<open>toRad\<close> with it.\<close>

definition mathPI :: real where
  "mathPI = 884279719003555 / 2 ^ 48"

definition toRad64 :: "jsnum \<Rightarrow> jsnum" where
  "toRad64 x = div64 (mul64 x (Fin mathPI)) (Fin 180)"

text \<open>\<open>haversineDistance\<close> with every operation rounded.\<close>

definition haversineDistance64 :: "jsnum \<Rightarrow> jsnum \<Rightarrow> jsnum \<Rightarrow> jsnum \<Rightarrow> jsnum" where
  "haversineDistance64 lat1 lon1 lat2 lon2 =
     (let R = Fin 6371000;
          dLat = toRad64 (sub64 lat2 lat1);
          dLon = toRad64 (sub64 lon2 lon1);
          a = add64
                (mul64 (sin64 (div64 dLat (Fin 2))) (sin64 (div64 dLat (Fin 2))))
                (mul64
                  (mul64
                    (mul64 (cos64 (toRad64 lat1)) (cos64 (toRad64 lat2)))
                    (sin64 (div64 dLon (Fin 2))))
                  (sin64 (div64 dLon (Fin 2))));
          c = mul64 (Fin 2) (atan2_64 (sqrt64 a) (sqrt64 (sub64 (Fin 1) a)))
      in mul64 R c)"

text \<open>The value of the local constant \<open>a\<close> of \<open>haversineDistance64\<close>.\<close>

definition hav_a64 :: "jsnum \<Rightarrow> jsnum \<Rightarrow> jsnum \<Rightarrow> jsnum \<Rightarrow> jsnum" where
  "hav_a64 lat1 lon1 lat2 lon2 =
     add64
       (mul64 (sin64 (div64 (toRad64 (sub64 lat2 lat1)) (Fin 2)))
          (sin64 (div64 (toRad64 (sub64 lat2 lat1)) (Fin 2))))
       (mul64
          (mul64
             (mul64 (cos64 (toRad64 lat1)) (cos64 (toRad64 lat2)))
             (sin64 (div64 (toRad64 (sub64 lon2 lon1)) (Fin 2))))
          (sin64 (div64 (toRad64 (sub64 lon2 lon1)) (Fin 2))))"

text \<open>The interpolation of \<open>animate\<close> and of the render, with every operation rounded.\<close>

definition interpolate64 :: "LocationPoint \<Rightarrow> LocationPoint \<Rightarrow> jsnum \<Rightarrow> jsnum \<times> jsnum" where
  "interpolate64 current next p =
     (add64 (Fin (latitude current))
        (mul64 (sub64 (Fin (latitude next)) (Fin (latitude current))) p),
      add64 (Fin (longitude current))
        (mul64 (sub64 (Fin (longitude next)) (Fin (longitude current))) p))"

section \<open>The frame callback in binary64\<close>

text \<open>
  \<open>animate\<close> once more, with every arithmetic operation rounded to binary64. The clock
  readings of \<open>Date.now()\<close> and the instants of \<open>getTime()\<close> are integers of magnitude
  below \<open>2 ^ 53\<close>, which are doubles, and so is the index. The setters, the refs, the effects
  and the buttons are those of the sections above. What is said below of the distance
  travelled, where a rounding can turn a number into \<open>NaN\<close>, is said of this callback.
\<close>

definition elapsed64 :: "int \<Rightarrow> component \<Rightarrow> jsnum" where
  "elapsed64 currentTime s =
     div64 (sub64 (Fin (real_of_int currentTime)) (Fin (real_of_int (startTime currentTime s))))
       (Fin 1000)"

definition timeDiff64 :: "LocationPoint \<Rightarrow> LocationPoint \<Rightarrow> jsnum" where
  "timeDiff64 current next =
     div64 (sub64 (getTime (timestamp next)) (getTime (timestamp current))) (Fin 1000)"

definition segmentElapsed64 :: "int \<Rightarrow> component \<Rightarrow> jsnum" where
  "segmentElapsed64 currentTime s =
     sub64 (elapsed64 currentTime s)
       (mul64 (Fin (real (currentIndex s)))
          (timeDiff64 (route s ! currentIndex s) (route s ! (currentIndex s + 1))))"

definition progress64 :: "int \<Rightarrow> component \<Rightarrow> jsnum" where
  "progress64 currentTime s =
     js_min
       (div64 (segmentElapsed64 currentTime s)
          (timeDiff64 (route s ! currentIndex s) (route s ! (currentIndex s + 1))))
       (Fin 1)"

definition position64 :: "int \<Rightarrow> component \<Rightarrow> jsnum \<times> jsnum" where
  "position64 currentTime s =
     interpolate64 (route s ! currentIndex s) (route s ! (currentIndex s + 1))
       (progress64 currentTime s)"

definition secDiff64 :: "int \<Rightarrow> component \<Rightarrow> jsnum" where
  "secDiff64 currentTime s =
     div64
       (sub64 (Fin (real_of_int currentTime))
          (case lastTimestampRef s of
             None \<Rightarrow> Fin (real_of_int currentTime)
           | Some ms \<Rightarrow> getTime (Some ms)))
       (Fin 1000)"

definition animate64 :: "int \<Rightarrow> int \<Rightarrow> component \<Rightarrow> error option \<times> component" where
  "animate64 currentTime advanceTime s =
     (if \<not> playing s \<or> route s = [] then (None, s)
      else if \<not> currentIndex s + 1 < length (route s) then (None, s\<lparr>playing := False\<rparr>)
      else
        let current = route s ! currentIndex s;
            s1 = s\<lparr>startTimeRef := Some (startTime currentTime s),
                   elapsedTime := elapsed64 currentTime s,
                   progressRef := progress64 currentTime s\<rparr>;
            (lat, lng) = position64 currentTime s;
            s2 = (case lastPositionRef s of
                    None \<Rightarrow> s1
                  | Some (lastLat, lastLng) \<Rightarrow>
                      let dist = haversineDistance64 lastLat lastLng lat lng
                      in s1\<lparr>distanceTravelled := add64 (distanceTravelled s) dist,
                            speed := (if js_gt (secDiff64 currentTime s) (Fin 0)
                                      then div64 dist (secDiff64 currentTime s)
                                      else speed s)\<rparr>);
            s3 = s2\<lparr>lastPositionRef := Some (lat, lng)\<rparr>
        in case timestamp current of
             None \<Rightarrow> (Some RangeError, s3)
           | Some ms \<Rightarrow>
               let s4 = s3\<lparr>lastTimestampRef := Some ms\<rparr>;
                   s5 = (if js_ge (progress64 currentTime s) (Fin 1)
                         then s4\<lparr>currentIndex :=
                                   min (currentIndex s + 1) (length (route s) - 1),
                                 progressRef := Fin 0,
                                 startTimeRef := Some advanceTime\<rparr>
                         else s4)
               in (None, s5\<lparr>animationPending := True\<rparr>))"

definition frame64 :: "int \<Rightarrow> int \<Rightarrow> component \<Rightarrow> error option \<times> component" where
  "frame64 currentTime advanceTime s =
     (let (e, s') = animate64 currentTime advanceTime (s\<lparr>animationPending := False\<rparr>)
      in (e, settle s s'))"

fun step64 :: "event \<Rightarrow> component \<Rightarrow> component" where
  "step64 ClickPlayPause s = (if route s = [] then s else clickPlayPause s)"
| "step64 ClickReset s = (if route s = [] then s else clickReset s)"
| "step64 (Frame currentTime advanceTime) s =
     (if animationPending s then snd (frame64 currentTime advanceTime s) else s)"

fun run64 :: "event list \<Rightarrow> component \<Rightarrow> component" where
  "run64 [] s = s"
| "run64 (e # es) s = run64 es (step64 e s)"

text \<open>
  The writes of \<open>animate64\<close> up to the assignment of \<open>lastPositionRef\<close>, as one update
  (\<open>step64_frame_running\<close> below relates it to \<open>step64\<close>).
\<close>

definition sampled64 :: "int \<Rightarrow> component \<Rightarrow> component" where
  "sampled64 t s =
     s\<lparr>startTimeRef := Some (startTime t s), elapsedTime := elapsed64 t s,
       progressRef := progress64 t s,
       distanceTravelled :=
         (case lastPositionRef s of
            None \<Rightarrow> distanceTravelled s
          | Some p \<Rightarrow>
              add64 (distanceTravelled s)
                (haversineDistance64 (fst p) (snd p)
                   (fst (position64 t s)) (snd (position64 t s)))),
       speed :=
         (case lastPositionRef s of
            None \<Rightarrow> speed s
          | Some p \<Rightarrow>
              if js_gt (secDiff64 t s) (Fin 0)
              then div64
                     (haversineDistance64 (fst p) (snd p)
                        (fst (position64 t s)) (snd (position64 t s)))
                     (secDiff64 t s)
              else speed s),
       lastPositionRef := Some (position64 t s), animationPending := False\<rparr>"

text \<open>
  The position the render computes: \<open>None\<close> stands for the \<open>Loading...\<close> branch, taken
  when the route is empty.
\<close>

definition renderPosition64 :: "component \<Rightarrow> (jsnum \<times> jsnum) option" where
  "renderPosition64 s =
     (if route s = [] then None
      else Some (interpolate64 (route s ! currentIndex s)
                   (route s ! min (currentIndex s + 1) (length (route s) - 1))
                   (progressRef s)))"

section \<open>Sample sessions in binary64\<close>

text \<open>
  Two waypoints one second apart whose coordinates are the doubles that 0.7 and 0.1 are read
  as.
\<close>

definition pointA :: LocationPoint where
  "pointA = \<lparr>latitude = 6305039478318694 / 2 ^ 53, longitude = 6305039478318694 / 2 ^ 53,
             timestamp = Some 1700000000000\<rparr>"

definition pointB :: LocationPoint where
  "pointB = \<lparr>latitude = 3602879701896397 / 2 ^ 55, longitude = 3602879701896397 / 2 ^ 55,
             timestamp = Some 1700000001000\<rparr>"

text \<open>
  The two-waypoint session of \<open>pairRoute\<close> in binary64: play, a first frame, a frame one
  second later, and the frame after it, which finds no next waypoint.
\<close>

definition pairD1 :: component where
  "pairD1 = step64 ClickPlayPause (loaded pairRoute)"

definition pairD2 :: component where
  "pairD2 = step64 (Frame 1800000000000 1800000000000) pairD1"

definition pairD3 :: component where
  "pairD3 = step64 (Frame 1800000001000 1800000001000) pairD2"

definition pairD4 :: component where
  "pairD4 = step64 (Frame 1800000001016 1800000001016) pairD3"

text \<open>
  Two waypoints with valid timestamps one second apart, nearly opposite on the globe: from
  latitude -56.39, longitude 0, to latitude 56.39, longitude 180, the coordinates as the
  doubles they are read as. The session: play, a first frame, and a frame one second later.
\<close>

definition antiA :: LocationPoint where
  "antiA = \<lparr>latitude = - (3968093484178473 / 2 ^ 46), longitude = 0,
            timestamp = Some 1700000000000\<rparr>"

definition antiB :: LocationPoint where
  "antiB = \<lparr>latitude = 3968093484178473 / 2 ^ 46, longitude = 180,
            timestamp = Some 1700000001000\<rparr>"

definition antiRoute :: "LocationPoint list" where
  "antiRoute = [antiA, antiB]"

definition antiD1 :: component where
  "antiD1 = step64 ClickPlayPause (loaded antiRoute)"

definition antiD2 :: component where
  "antiD2 = step64 (Frame 1800000000000 1800000000000) antiD1"

definition antiD3 :: component where
  "antiD3 = step64 (Frame 1800000001000 1800000001000) antiD2"

section \<open>Facts about JavaScript numbers\<close>

lemma js_add_NaN_right: "js_add x NaN = NaN"
  by (cases x) simp_all

lemma js_mul_NaN_right: "js_mul x NaN = NaN"
  by (cases x) simp_all

lemma js_div_NaN_right: "js_div x NaN = NaN"
  by (cases x) simp_all

lemma js_atan2_NaN_right: "js_atan2 x NaN = NaN"
  by (cases x) simp_all

lemma js_min_not_above: "\<not> js_gt (js_min x (Fin 1)) (Fin 1)"
  by (cases x) simp_all

section \<open>Facts about the great-circle distance\<close>


lemma hav_a_alt:
  "hav_a lat1 lon1 lat2 lon2 =
     (1 - (1 - (sin ((lon2 - lon1) * pi / 180 / 2))\<^sup>2) * cos (lat2 * pi / 180 - lat1 * pi / 180)
        + (sin ((lon2 - lon1) * pi / 180 / 2))\<^sup>2 * cos (lat1 * pi / 180 + lat2 * pi / 180)) / 2"
proof -
  define p where "p = lat1 * pi / 180"
  define q where "q = lat2 * pi / 180"
  define h where "h = (sin ((lon2 - lon1) * pi / 180 / 2))\<^sup>2"
  have d: "(lat2 - lat1) * pi / 180 / 2 = (q - p) / 2"
    by (simp add: p_def q_def algebra_simps diff_divide_distrib)
  have s: "sin ((q - p) / 2) * sin ((q - p) / 2) = (1 - cos (q - p)) / 2"
  proof -
    have e: "2 * ((q - p) / 2) = q - p" by simp
    have "cos (q - p) = 1 - 2 * (sin ((q - p) / 2))\<^sup>2"
      using cos_double_sin [of "(q - p) / 2"] unfolding e .
    then show ?thesis by (simp add: power2_eq_square)
  qed
  have c: "cos p * cos q = (cos (q - p) + cos (p + q)) / 2"
    by (simp add: cos_diff cos_add)
  have "hav_a lat1 lon1 lat2 lon2 = sin ((q - p) / 2) * sin ((q - p) / 2) + cos p * cos q * h"
    unfolding hav_a_def d h_def p_def q_def by (simp add: power2_eq_square)
  also have "\<dots> = (1 - cos (q - p)) / 2 + (cos (q - p) + cos (p + q)) / 2 * h"
    by (simp only: s c)
  also have "\<dots> = (1 - (1 - h) * cos (q - p) + h * cos (p + q)) / 2"
    by (simp add: algebra_simps add_divide_distrib diff_divide_distrib)
  finally show ?thesis
    by (simp add: p_def q_def h_def)
qed

lemma hav_a_bounds: "0 \<le> hav_a lat1 lon1 lat2 lon2 \<and> hav_a lat1 lon1 lat2 lon2 \<le> 1"
proof -
  define h where "h = (sin ((lon2 - lon1) * pi / 180 / 2))\<^sup>2"
  define cd where "cd = cos (lat2 * pi / 180 - lat1 * pi / 180)"
  define cs where "cs = cos (lat1 * pi / 180 + lat2 * pi / 180)"
  have h0: "0 \<le> h" by (simp add: h_def)
  have h1: "h \<le> 1" unfolding h_def
    using abs_sin_le_one [of "(lon2 - lon1) * pi / 180 / 2"] by (simp add: abs_square_le_1)
  have cdb: "- 1 \<le> cd" "cd \<le> 1" by (simp_all add: cd_def)
  have csb: "- 1 \<le> cs" "cs \<le> 1" by (simp_all add: cs_def)
  have A: "(1 - h) * cd \<le> (1 - h) * 1" using h1 cdb by (intro mult_left_mono) simp_all
  have B: "(1 - h) * (- 1) \<le> (1 - h) * cd" using h1 cdb by (intro mult_left_mono) simp_all
  have C: "h * cs \<le> h * 1" using h0 csb by (intro mult_left_mono) simp_all
  have D: "h * (- 1) \<le> h * cs" using h0 csb by (intro mult_left_mono) simp_all
  have E: "hav_a lat1 lon1 lat2 lon2 = (1 - (1 - h) * cd + h * cs) / 2"
    by (simp add: hav_a_alt h_def cd_def cs_def)
  show ?thesis unfolding E using A B C D by simp
qed

lemma haversineDistance_Fin:
  "haversineDistance (Fin lat1) (Fin lon1) (Fin lat2) (Fin lon2) =
     Fin (6371000 * (2 * atan2 (sqrt (hav_a lat1 lon1 lat2 lon2)) (sqrt (1 - hav_a lat1 lon1 lat2 lon2))))"
proof -
  have a: "js_add
            (js_mul (js_sin (js_div (toRad (js_sub (Fin lat2) (Fin lat1))) (Fin 2)))
                    (js_sin (js_div (toRad (js_sub (Fin lat2) (Fin lat1))) (Fin 2))))
            (js_mul (js_mul (js_mul (js_cos (toRad (Fin lat1))) (js_cos (toRad (Fin lat2))))
                      (js_sin (js_div (toRad (js_sub (Fin lon2) (Fin lon1))) (Fin 2))))
                    (js_sin (js_div (toRad (js_sub (Fin lon2) (Fin lon1))) (Fin 2))))
           = Fin (hav_a lat1 lon1 lat2 lon2)"
    by (simp add: toRad_def js_sub_def hav_a_def)
  show ?thesis
    unfolding haversineDistance_def Let_def a
    using hav_a_bounds [of lat1 lon1 lat2 lon2]
    by (simp add: js_sub_def)
qed

lemma atan2_nonneg: "0 \<le> y \<Longrightarrow> 0 \<le> x \<Longrightarrow> 0 \<le> atan2 y x"
  by (simp add: atan2_def)

lemma hav_antipodal: "haversineDistance (Fin 0) (Fin 0) (Fin 0) (Fin 180) = Fin (6371000 * pi)"
  by (simp add: haversineDistance_Fin hav_a_def atan2_def)


section \<open>Facts about effects and events\<close>

lemmas effect_defs =
  Let_def settle_def commit_def resetEffect_def frameEffect_def frameCleanup_def

lemmas animate_defs =
  frame_def animate_def startTime_def elapsed_def timeDiff_def segmentElapsed_def
  progress_def interpolate_def position_def secDiff_def getTime_def js_sub_def

lemma settle_same:
  "playing p = playing s \<Longrightarrow> route p = route s \<Longrightarrow> currentIndex p = currentIndex s \<Longrightarrow>
   settle p s = s"
  by (simp add: effect_defs)

lemma settle_advanced:
  "playing p \<Longrightarrow> playing s \<Longrightarrow> route p = route s \<Longrightarrow> currentIndex p \<noteq> currentIndex s \<Longrightarrow>
   settle p s = s\<lparr>startTimeRef := None, animationPending := True\<rparr>"
  by (simp add: effect_defs)

lemma settle_stopped:
  "playing p \<Longrightarrow> \<not> playing s \<Longrightarrow>
   settle p s =
     s\<lparr>currentIndex := 0, elapsedTime := Fin 0, distanceTravelled := Fin 0,
       speed := Fin 0, progressRef := Fin 0, lastTimestampRef := None,
       lastPositionRef := None, animationPending := False\<rparr>"
  by (simp add: effect_defs)

lemma settle_started:
  "\<not> playing p \<Longrightarrow> playing s \<Longrightarrow>
   settle p s = s\<lparr>startTimeRef := None, animationPending := True\<rparr>"
  by (simp add: effect_defs)

text \<open>A third commit changes nothing: the effects have settled.\<close>

lemma commit_playing: "playing (commit p s) = playing s"
  by (simp add: effect_defs)

lemma commit_route: "route (commit p s) = route s"
  by (simp add: effect_defs)

lemma commit_same_index:
  "playing p = playing s \<Longrightarrow> route p = route s \<Longrightarrow> currentIndex (commit p s) = currentIndex s"
  by (simp add: effect_defs)

lemma commit_same:
  "playing p = playing s \<Longrightarrow> route p = route s \<Longrightarrow> currentIndex p = currentIndex s \<Longrightarrow>
   commit p s = s"
  by (simp add: effect_defs)

lemma settle_stable: "commit (commit p s) (settle p s) = settle p s"
  unfolding settle_def
  by (rule commit_same) (simp_all add: commit_playing commit_route commit_same_index)

lemma clickPlayPause_play:
  "\<not> playing s \<Longrightarrow>
   clickPlayPause s = s\<lparr>playing := True, startTimeRef := None, animationPending := True\<rparr>"
  by (simp add: clickPlayPause_def settle_started)

lemma clickPlayPause_pause:
  "playing s \<Longrightarrow>
   clickPlayPause s =
     s\<lparr>playing := False, currentIndex := 0, elapsedTime := Fin 0, distanceTravelled := Fin 0,
       speed := Fin 0, progressRef := Fin 0, lastTimestampRef := None,
       lastPositionRef := None, animationPending := False\<rparr>"
  by (simp add: clickPlayPause_def settle_stopped)

lemma clickReset_playing:
  "playing s \<Longrightarrow>
   clickReset s =
     s\<lparr>playing := False, currentIndex := 0, elapsedTime := Fin 0, distanceTravelled := Fin 0,
       speed := Fin 0, progressRef := Fin 0, lastTimestampRef := None,
       lastPositionRef := None, animationPending := False\<rparr>"
  by (simp add: clickReset_def settle_stopped)

lemma frame_terminal:
  "playing s \<Longrightarrow> route s \<noteq> [] \<Longrightarrow> \<not> currentIndex s + 1 < length (route s) \<Longrightarrow>
   frame t t' s =
     (None,
      s\<lparr>playing := False, currentIndex := 0, elapsedTime := Fin 0, distanceTravelled := Fin 0,
        speed := Fin 0, progressRef := Fin 0, lastTimestampRef := None,
        lastPositionRef := None, animationPending := False\<rparr>)"
  by (simp add: frame_def animate_def settle_stopped)

lemma loaded_eq: "loaded r = mounted\<lparr>route := r\<rparr>"
  by (simp add: loaded_def routeFetched_def effect_defs mounted_def)

section \<open>The sample sessions, state by state\<close>

lemma demo1_eq:
  "demo1 =
     \<lparr>route = demoRoute, currentIndex = 0, playing = True, elapsedTime = Fin 0,
      distanceTravelled = Fin 0, speed = Fin 0, animationPending = True,
      startTimeRef = None, lastTimestampRef = None, lastPositionRef = None,
      progressRef = Fin 0\<rparr>"
  by (simp add: demo1_def loaded_eq mounted_def clickPlayPause_play demoRoute_def)

lemma demo2_eq:
  "demo2 =
     \<lparr>route = demoRoute, currentIndex = 0, playing = True, elapsedTime = Fin 0,
      distanceTravelled = Fin 0, speed = Fin 0, animationPending = True,
      startTimeRef = Some 1800000000000, lastTimestampRef = Some 1700000000000,
      lastPositionRef = Some (Fin 0, Fin 0), progressRef = Fin 0\<rparr>"
  unfolding demo2_def demo1_eq by (simp add: animate_defs demoRoute_def effect_defs)

lemma demo3_eq:
  "demo3 =
     \<lparr>route = demoRoute, currentIndex = 1, playing = True, elapsedTime = Fin 1,
      distanceTravelled = Fin (6371000 * pi), speed = Fin (6371000 * pi / 100000001),
      animationPending = True, startTimeRef = None, lastTimestampRef = Some 1700000000000,
      lastPositionRef = Some (Fin 0, Fin 180), progressRef = Fin 0\<rparr>"
  unfolding demo3_def demo2_eq
  by (simp add: animate_defs demoRoute_def effect_defs hav_antipodal)

lemma demo4_fields:
  "currentIndex demo4 = 1 \<and> playing demo4 \<and> elapsedTime demo4 = Fin 0 \<and>
   progressRef demo4 = Fin (- 1) \<and> startTimeRef demo4 = Some 1800000001016 \<and>
   lastPositionRef demo4 = Some (Fin 0, Fin 360)"
  unfolding demo4_def demo3_eq
  by (simp add: animate_defs demoRoute_def effect_defs)

lemma pair1_eq:
  "pair1 =
     \<lparr>route = pairRoute, currentIndex = 0, playing = True, elapsedTime = Fin 0,
      distanceTravelled = Fin 0, speed = Fin 0, animationPending = True,
      startTimeRef = None, lastTimestampRef = None, lastPositionRef = None,
      progressRef = Fin 0\<rparr>"
  by (simp add: pair1_def loaded_eq mounted_def clickPlayPause_play pairRoute_def)

lemma pair2_eq:
  "pair2 =
     \<lparr>route = pairRoute, currentIndex = 0, playing = True, elapsedTime = Fin 0,
      distanceTravelled = Fin 0, speed = Fin 0, animationPending = True,
      startTimeRef = Some 1800000000000, lastTimestampRef = Some 1700000000000,
      lastPositionRef = Some (Fin 0, Fin 0), progressRef = Fin 0\<rparr>"
  unfolding pair2_def pair1_eq by (simp add: animate_defs pairRoute_def effect_defs)

lemma pair3_eq:
  "pair3 =
     \<lparr>route = pairRoute, currentIndex = 1, playing = True, elapsedTime = Fin 1,
      distanceTravelled = Fin (6371000 * pi), speed = Fin (6371000 * pi / 100000001),
      animationPending = True, startTimeRef = None, lastTimestampRef = Some 1700000000000,
      lastPositionRef = Some (Fin 0, Fin 180), progressRef = Fin 0\<rparr>"
  unfolding pair3_def pair2_eq
  by (simp add: animate_defs pairRoute_def effect_defs hav_antipodal)

lemma pair4_eq:
  "pair4 =
     \<lparr>route = pairRoute, currentIndex = 0, playing = False, elapsedTime = Fin 0,
      distanceTravelled = Fin 0, speed = Fin 0, animationPending = False,
      startTimeRef = None, lastTimestampRef = None, lastPositionRef = None,
      progressRef = Fin 0\<rparr>"
  unfolding pair4_def pair3_eq
  by (simp add: frame_terminal pairRoute_def)

lemma same1_eq:
  "same1 =
     \<lparr>route = sameRoute, currentIndex = 0, playing = True, elapsedTime = Fin 0,
      distanceTravelled = Fin 0, speed = Fin 0, animationPending = True,
      startTimeRef = None, lastTimestampRef = None, lastPositionRef = None,
      progressRef = Fin 0\<rparr>"
  by (simp add: same1_def loaded_eq mounted_def clickPlayPause_play sameRoute_def)

lemma same2_eq:
  "same2 =
     \<lparr>route = sameRoute, currentIndex = 0, playing = True, elapsedTime = Fin 0,
      distanceTravelled = Fin 0, speed = Fin 0, animationPending = True,
      startTimeRef = Some 1800000000000, lastTimestampRef = Some 1700000000000,
      lastPositionRef = Some (NaN, NaN), progressRef = NaN\<rparr>"
  unfolding same2_def same1_eq by (simp add: animate_defs sameRoute_def effect_defs)

lemma haversineDistance_NaN: "haversineDistance NaN lon1 lat2 lon2 = NaN"
  by (simp add: haversineDistance_def toRad_def js_sub_def Let_def
      js_add_NaN_right js_mul_NaN_right js_div_NaN_right js_atan2_NaN_right)

lemma same3_eq:
  "same3 =
     \<lparr>route = sameRoute, currentIndex = 1, playing = True, elapsedTime = Fin 1,
      distanceTravelled = NaN, speed = NaN,
      animationPending = True, startTimeRef = None, lastTimestampRef = Some 1700000000000,
      lastPositionRef = Some (Fin 0, Fin 180), progressRef = Fin 0\<rparr>"
  unfolding same3_def same2_eq
  by (simp add: animate_defs sameRoute_def effect_defs haversineDistance_NaN)

lemma back1_eq:
  "back1 =
     \<lparr>route = backRoute, currentIndex = 0, playing = True, elapsedTime = Fin 0,
      distanceTravelled = Fin 0, speed = Fin 0, animationPending = True,
      startTimeRef = None, lastTimestampRef = None, lastPositionRef = None,
      progressRef = Fin 0\<rparr>"
  by (simp add: back1_def loaded_eq mounted_def clickPlayPause_play backRoute_def)

lemma back2_eq:
  "back2 =
     \<lparr>route = backRoute, currentIndex = 0, playing = True, elapsedTime = Fin 0,
      distanceTravelled = Fin 0, speed = Fin 0, animationPending = True,
      startTimeRef = Some 1800000000000, lastTimestampRef = Some 1700000001000,
      lastPositionRef = Some (Fin 0, Fin 0), progressRef = Fin 0\<rparr>"
  unfolding back2_def back1_eq by (simp add: animate_defs backRoute_def effect_defs)

lemma back3_fields:
  "currentIndex back3 = 0 \<and> playing back3 \<and> progressRef back3 = Fin (- 1) \<and>
   lastPositionRef back3 = Some (Fin 0, Fin (- 180))"
  unfolding back3_def back2_eq by (simp add: animate_defs backRoute_def effect_defs)


section \<open>The frame of a running component\<close>

lemma startTime_pending: "startTime t (s\<lparr>animationPending := b\<rparr>) = startTime t s"
  by (simp add: startTime_def)

lemma elapsed_pending: "elapsed t (s\<lparr>animationPending := b\<rparr>) = elapsed t s"
  by (simp add: elapsed_def startTime_pending)

lemma progress_pending: "progress t (s\<lparr>animationPending := b\<rparr>) = progress t s"
  by (simp add: progress_def segmentElapsed_def elapsed_pending)

lemma position_pending: "position t (s\<lparr>animationPending := b\<rparr>) = position t s"
  by (simp add: position_def progress_pending)

lemma secDiff_pending: "secDiff t (s\<lparr>animationPending := b\<rparr>) = secDiff t s"
  by (simp add: secDiff_def)

lemmas pending_simps =
  startTime_pending elapsed_pending progress_pending position_pending secDiff_pending

lemma step_frame_running:
  assumes "playing s" and "animationPending s" and "currentIndex s + 1 < length (route s)"
  shows "step (Frame t t') s =
     (case timestamp (route s ! currentIndex s) of
        None \<Rightarrow> sampled t s
      | Some ms \<Rightarrow>
          if js_ge (progress t s) (Fin 1)
          then (sampled t s)\<lparr>lastTimestampRef := Some ms, currentIndex := currentIndex s + 1,
                 progressRef := Fin 0, startTimeRef := None, animationPending := True\<rparr>
          else (sampled t s)\<lparr>lastTimestampRef := Some ms, animationPending := True\<rparr>)"
proof -
  have ne: "route s \<noteq> []" using assms(3) by auto
  show ?thesis
    using assms ne
    by (cases "lastPositionRef s"; cases "timestamp (route s ! currentIndex s)";
        cases "js_ge (progress t s) (Fin 1)"; cases "position t s")
      (simp_all add: frame_def animate_def Let_def pending_simps sampled_def
        settle_same settle_advanced case_prod_beta)
qed


section \<open>Every event, case by case\<close>

lemma step_frame_idle:
  assumes "\<not> playing s \<or> route s = []"
  shows "step (Frame t t') s = s\<lparr>animationPending := False\<rparr>"
proof (cases "animationPending s")
  case True
  then show ?thesis using assms by (auto simp add: frame_def animate_def settle_same)
next
  case False
  then show ?thesis by simp
qed

lemma step_frame_terminal:
  assumes "playing s" and "animationPending s" and "route s \<noteq> []"
    and "\<not> currentIndex s + 1 < length (route s)"
  shows "step (Frame t t') s =
     s\<lparr>playing := False, currentIndex := 0, elapsedTime := Fin 0, distanceTravelled := Fin 0,
       speed := Fin 0, progressRef := Fin 0, lastTimestampRef := None,
       lastPositionRef := None, animationPending := False\<rparr>"
  using assms by (simp add: frame_terminal)

lemma step_click_stopped:
  "\<not> playing s \<Longrightarrow> route s \<noteq> [] \<Longrightarrow>
   step ClickPlayPause s = s\<lparr>playing := True, startTimeRef := None, animationPending := True\<rparr>"
  by (simp add: clickPlayPause_play)

lemma step_click_playing:
  "playing s \<Longrightarrow> route s \<noteq> [] \<Longrightarrow>
   step ClickPlayPause s =
     s\<lparr>playing := False, currentIndex := 0, elapsedTime := Fin 0, distanceTravelled := Fin 0,
       speed := Fin 0, progressRef := Fin 0, lastTimestampRef := None,
       lastPositionRef := None, animationPending := False\<rparr>"
  by (simp add: clickPlayPause_pause)

lemma clickReset_fields:
  "\<not> playing (clickReset s) \<and> route (clickReset s) = route s \<and>
   currentIndex (clickReset s) = 0 \<and> elapsedTime (clickReset s) = Fin 0 \<and>
   distanceTravelled (clickReset s) = Fin 0 \<and> speed (clickReset s) = Fin 0 \<and>
   progressRef (clickReset s) = Fin 0 \<and> lastTimestampRef (clickReset s) = None \<and>
   lastPositionRef (clickReset s) = None \<and>
   animationPending (clickReset s) = (\<not> playing s \<and> currentIndex s = 0 \<and> animationPending s)"
  by (cases "playing s"; cases "currentIndex s = 0") (simp_all add: clickReset_def effect_defs)

text \<open>
  A property that holds of the state before an event holds after it as soon as it survives
  the five ways an event can change the state.
\<close>

lemma step_cases:
  assumes "P s"
    and "P (s\<lparr>animationPending := False\<rparr>)"
    and "\<not> playing s \<Longrightarrow> P (s\<lparr>playing := True, startTimeRef := None, animationPending := True\<rparr>)"
    and "P (clickReset s)"
    and "P (s\<lparr>playing := False, currentIndex := 0, elapsedTime := Fin 0,
              distanceTravelled := Fin 0, speed := Fin 0, progressRef := Fin 0,
              lastTimestampRef := None, lastPositionRef := None, animationPending := False\<rparr>)"
    and "\<And>t t'. playing s \<Longrightarrow> animationPending s \<Longrightarrow> currentIndex s + 1 < length (route s) \<Longrightarrow>
           P (step (Frame t t') s)"
  shows "P (step e s)"
proof (cases e)
  case ClickPlayPause
  then show ?thesis
    using assms(1,3,5) by (cases "playing s") (simp_all add: clickPlayPause_play clickPlayPause_pause)
next
  case ClickReset
  then show ?thesis using assms(1,4) by simp
next
  case (Frame t t')
  show ?thesis
  proof (cases "animationPending s")
    case False
    then show ?thesis using Frame assms(1) by simp
  next
    case pending: True
    show ?thesis
    proof (cases "\<not> playing s \<or> route s = []")
      case True
      then show ?thesis using Frame assms(2) step_frame_idle [of s t t'] by simp
    next
      case running: False
      show ?thesis
      proof (cases "currentIndex s + 1 < length (route s)")
        case True
        then show ?thesis using Frame running pending assms(6) by simp
      next
        case False
        then show ?thesis
          using Frame running pending assms(5) step_frame_terminal [of s t t'] by simp
      qed
    qed
  qed
qed

lemma progress_not_above: "\<not> js_gt (progress t s) (Fin 1)"
  by (simp add: progress_def js_min_not_above)

lemma step_progress_not_above:
  assumes "\<not> js_gt (progressRef s) (Fin 1)"
  shows "\<not> js_gt (progressRef (step e s)) (Fin 1)"
proof (rule step_cases [where P = "\<lambda>x. \<not> js_gt (progressRef x) (Fin 1)"])
  fix t t' assume "playing s" "animationPending s" "currentIndex s + 1 < length (route s)"
  then show "\<not> js_gt (progressRef (step (Frame t t') s)) (Fin 1)"
    by (simp add: step_frame_running sampled_def progress_not_above split: option.splits
        del: step.simps)
qed (simp_all add: assms clickReset_fields)

lemma run_progress_not_above:
  "\<not> js_gt (progressRef s) (Fin 1) \<Longrightarrow> \<not> js_gt (progressRef (run es s)) (Fin 1)"
  by (induction es arbitrary: s) (simp_all add: step_progress_not_above del: step.simps)

lemma step_advance_resets_progress:
  "currentIndex s < currentIndex (step e s) \<longrightarrow> progressRef (step e s) = Fin 0"
proof (rule step_cases
    [where P = "\<lambda>x. currentIndex s < currentIndex x \<longrightarrow> progressRef x = Fin 0"])
  fix t t' assume "playing s" "animationPending s" "currentIndex s + 1 < length (route s)"
  then show "currentIndex s < currentIndex (step (Frame t t') s) \<longrightarrow>
       progressRef (step (Frame t t') s) = Fin 0"
    by (simp add: step_frame_running sampled_def split: option.splits del: step.simps)
qed (simp_all add: clickReset_fields)

lemma demo2_run: "run [ClickPlayPause, Frame 1800000000000 1800000000000] (loaded demoRoute) = demo2"
  by (simp only: run.simps demo2_def demo1_def)

lemma demo4_run:
  "run [ClickPlayPause, Frame 1800000000000 1800000000000, Frame 1800000001000 1800000001000,
        Frame 1800000001016 1800000001016] (loaded demoRoute) = demo4"
  by (simp only: run.simps demo4_def demo3_def demo2_def demo1_def)

lemma loaded_progress: "progressRef (loaded r) = Fin 0"
  by (simp add: loaded_eq mounted_def)

lemma zero_duration_progress:
  assumes "timestamp (route s ! currentIndex s) = Some ms"
    and "timestamp (route s ! (currentIndex s + 1)) = Some ms"
  shows "progress t s =
     (if startTime t s < t then Fin 1 else if startTime t s = t then NaN else NInf)"
  using assms
  by (simp add: progress_def segmentElapsed_def timeDiff_def elapsed_def getTime_def js_sub_def)


section \<open>The stopped component is zeroed\<close>

lemma loaded_zeroed: "zeroed (loaded r)"
  by (simp add: loaded_eq mounted_def zeroed_def)

section \<open>When the frame callback throws\<close>

lemma frame_error:
  "fst (frame t t' s) =
     (if playing s \<and> currentIndex s + 1 < length (route s) \<and>
         timestamp (route s ! currentIndex s) = None
      then Some RangeError else None)"
proof (cases "playing s \<and> currentIndex s + 1 < length (route s)")
  case True
  then have "route s \<noteq> []" by auto
  then show ?thesis
    using True
    by (cases "position t s"; cases "timestamp (route s ! currentIndex s)")
      (simp_all add: frame_def animate_def Let_def pending_simps)
next
  case False
  then show ?thesis by (auto simp add: frame_def animate_def)
qed

section \<open>Facts about rounding to binary64\<close>

lemma round_even_cases:
  "(\<bar>y - of_int (round_even y)\<bar> < 1 / 2) \<or>
   (\<bar>y - of_int (round_even y)\<bar> = 1 / 2 \<and> even (round_even y))"
proof -
  define r where "r = y - of_int \<lfloor>y\<rfloor>"
  have r: "0 \<le> r" "r < 1" unfolding r_def by linarith+
  have y: "y = of_int \<lfloor>y\<rfloor> + r" by (simp add: r_def)
  consider "r < 1 / 2" | "1 / 2 < r" | "r = 1 / 2" "even \<lfloor>y\<rfloor>" | "r = 1 / 2" "odd \<lfloor>y\<rfloor>"
    by fastforce
  then show ?thesis
  proof cases
    case 1
    then have "round_even y = \<lfloor>y\<rfloor>" by (simp add: round_even_def r_def)
    then show ?thesis using 1 r by (simp add: r_def [symmetric])
  next
    case 2
    then have e: "round_even y = \<lfloor>y\<rfloor> + 1" by (simp add: round_even_def r_def)
    have "y - of_int (round_even y) = r - 1" unfolding e by (simp add: r_def)
    then show ?thesis using 2 r by simp
  next
    case 3
    then have "round_even y = \<lfloor>y\<rfloor>" by (simp add: round_even_def r_def)
    then show ?thesis using 3 by (simp add: r_def [symmetric])
  next
    case 4
    then have e: "round_even y = \<lfloor>y\<rfloor> + 1" by (simp add: round_even_def r_def)
    have "y - of_int (round_even y) = r - 1" unfolding e by (simp add: r_def)
    then show ?thesis using 4 e by simp
  qed
qed

lemma round_even_close: "\<bar>y - of_int (round_even y)\<bar> \<le> 1 / 2"
  using round_even_cases [of y] by auto

lemma round_even_eqI:
  assumes "\<bar>y - of_int k\<bar> < 1 / 2"
  shows "round_even y = k"
proof -
  have "\<bar>of_int (round_even y) - (of_int k :: real)\<bar> < 1"
    using assms round_even_close [of y] by linarith
  then have "\<bar>round_even y - k\<bar> < 1"
    by (metis of_int_abs of_int_diff of_int_less_1_iff)
  then show ?thesis by linarith
qed

lemma round_even_tieI:
  assumes "\<bar>y - of_int k\<bar> = 1 / 2" and "even k"
  shows "round_even y = k"
proof (rule ccontr)
  assume n: "round_even y \<noteq> k"
  have c: "\<bar>y - of_int (round_even y)\<bar> \<le> 1 / 2" by (rule round_even_close)
  have "\<bar>of_int (round_even y) - (of_int k :: real)\<bar> \<le> 1"
    using assms(1) c by linarith
  then have "\<bar>round_even y - k\<bar> \<le> 1"
    by (metis of_int_abs of_int_diff of_int_le_1_iff)
  then have d: "round_even y = k + 1 \<or> round_even y = k - 1" using n by linarith
  then have odd: "odd (round_even y)" using assms(2) by auto
  have "\<bar>y - of_int (round_even y)\<bar> < 1 / 2"
    using round_even_cases [of y] odd by blast
  then show False using d assms(1) by (auto simp add: abs_if split: if_splits)
qed

lemma round_even_minus: "round_even (- y) = - round_even y"
proof -
  from round_even_cases [of y] show ?thesis
  proof
    assume "\<bar>y - of_int (round_even y)\<bar> < 1 / 2"
    moreover have "- y - of_int (- round_even y) = - (y - of_int (round_even y))" by simp
    ultimately have "\<bar>- y - of_int (- round_even y)\<bar> < 1 / 2" by (simp only: abs_minus_cancel)
    then show ?thesis by (rule round_even_eqI)
  next
    assume a: "\<bar>y - of_int (round_even y)\<bar> = 1 / 2 \<and> even (round_even y)"
    moreover have "- y - of_int (- round_even y) = - (y - of_int (round_even y))" by simp
    ultimately have "\<bar>- y - of_int (- round_even y)\<bar> = 1 / 2" by (simp only: abs_minus_cancel)
    moreover have "even (- round_even y)" using a by simp
    ultimately show ?thesis by (rule round_even_tieI)
  qed
qed

lemma round_even_of_int: "round_even (of_int k) = k"
  by (rule round_even_eqI) simp

lemma round_even_nonneg: "0 \<le> y \<Longrightarrow> 0 \<le> round_even y"
proof (rule ccontr)
  assume y: "0 \<le> y" and "\<not> 0 \<le> round_even y"
  then have "round_even y \<le> - 1" by simp
  then have "real_of_int (round_even y) \<le> - 1" by (metis of_int_le_iff of_int_minus of_int_1)
  then show False using y round_even_close [of y] by linarith
qed

lemma ulp_pos: "0 < ulp x"
  by (simp add: ulp_def)

lemma ulp_minus: "ulp (- x) = ulp x"
  by (simp add: ulp_def)

lemma rnd_minus: "rnd (- x) = - rnd x"
  by (simp add: rnd_def ulp_minus round_even_minus)

lemma rnd_zero: "rnd 0 = 0"
  by (simp add: rnd_def)

lemma rnd_nonneg: "0 \<le> x \<Longrightarrow> 0 \<le> rnd x"
  using ulp_pos [of x] by (simp add: rnd_def round_even_nonneg)

lemma rnd_error: "\<bar>rnd x - x\<bar> \<le> ulp x / 2"
proof (cases "x = 0")
  case True
  then show ?thesis using ulp_pos [of x] by (simp add: rnd_def)
next
  case False
  have u: "0 < ulp x" by (rule ulp_pos)
  have "rnd x - x = (of_int (round_even (x / ulp x)) - x / ulp x) * ulp x"
    using False u by (simp add: rnd_def field_simps)
  then have "\<bar>rnd x - x\<bar> = \<bar>of_int (round_even (x / ulp x)) - x / ulp x\<bar> * ulp x"
    using u by (simp add: abs_mult)
  also have "\<dots> \<le> 1 / 2 * ulp x"
    using round_even_close [of "x / ulp x"] u by (intro mult_right_mono) (simp_all add: abs_minus_commute)
  finally show ?thesis by simp
qed

lemma ulp_le:
  assumes "x \<noteq> 0"
  shows "ulp x \<le> \<bar>x\<bar> / 2 ^ 52 + 1 / 2 ^ 1074"
proof -
  have l: "real_of_int \<lfloor>log 2 \<bar>x\<bar>\<rfloor> \<le> log 2 \<bar>x\<bar>" by simp
  have a: "2 powr real_of_int (\<lfloor>log 2 \<bar>x\<bar>\<rfloor> - 52) \<le> \<bar>x\<bar> / 2 ^ 52"
  proof -
    have "2 powr real_of_int (\<lfloor>log 2 \<bar>x\<bar>\<rfloor> - 52) = 2 powr real_of_int \<lfloor>log 2 \<bar>x\<bar>\<rfloor> / 2 powr 52"
      by (simp add: powr_diff)
    also have "\<dots> \<le> 2 powr log 2 \<bar>x\<bar> / 2 powr 52"
      using l by (intro divide_right_mono) simp_all
    also have "\<dots> = \<bar>x\<bar> / 2 ^ 52" using assms by simp
    finally show ?thesis .
  qed
  have b: "2 powr real_of_int (- 1022 - 52) = 1 / 2 ^ 1074"
    by (simp add: powr_minus_divide)
  show ?thesis
  proof (cases "\<lfloor>log 2 \<bar>x\<bar>\<rfloor> \<le> - 1022")
    case True
    then have "ulp x = 2 powr real_of_int (- 1022 - 52)" by (simp add: ulp_def max_def)
    then show ?thesis using b by simp
  next
    case False
    then have "ulp x = 2 powr real_of_int (\<lfloor>log 2 \<bar>x\<bar>\<rfloor> - 52)" by (simp add: ulp_def max_def)
    then show ?thesis using a by simp
  qed
qed

lemma ulp_eqI:
  fixes n :: nat
  assumes "n \<le> 1074" and "2 ^ 52 / 2 ^ n \<le> \<bar>x\<bar>" and "\<bar>x\<bar> < 2 ^ 53 / 2 ^ n"
  shows "ulp x = 1 / 2 ^ n"
proof -
  have "(0 :: real) < 2 ^ 52 / 2 ^ n" by simp
  then have pos: "0 < \<bar>x\<bar>" using assms(2) by linarith
  have p: "2 powr real_of_int (52 - int n) = 2 ^ 52 / 2 ^ n"
    by (simp add: powr_diff powr_realpow)
  have q: "2 powr (real_of_int (52 - int n) + 1) = 2 ^ 53 / 2 ^ n"
    by (simp add: powr_diff powr_realpow powr_add)
  have "\<lfloor>log 2 \<bar>x\<bar>\<rfloor> = 52 - int n"
    using assms(2,3) pos p q by (subst floor_log_eq_powr_iff) simp_all
  then have "ulp x = 2 powr real_of_int (- int n)"
    using assms(1) by (simp add: ulp_def max_def)
  also have "\<dots> = 1 / 2 ^ n"
    by (simp add: powr_minus_divide powr_realpow)
  finally show ?thesis .
qed

lemma rnd_eqI:
  fixes n :: nat and k :: int
  assumes "n \<le> 1074" and "2 ^ 52 / 2 ^ n \<le> \<bar>x\<bar>" and "\<bar>x\<bar> < 2 ^ 53 / 2 ^ n"
    and "\<bar>x - real_of_int k / 2 ^ n\<bar> < 1 / 2 ^ (n + 1)"
  shows "rnd x = real_of_int k / 2 ^ n"
proof -
  have u: "ulp x = 1 / 2 ^ n" using assms(1,2,3) by (rule ulp_eqI)
  have "(0 :: real) < 2 ^ 52 / 2 ^ n" by simp
  then have "0 < \<bar>x\<bar>" using assms(2) by linarith
  then have nz: "x \<noteq> 0" by auto
  have "x * 2 ^ n - real_of_int k = (x - real_of_int k / 2 ^ n) * 2 ^ n"
    by (simp add: field_simps)
  then have "\<bar>x * 2 ^ n - real_of_int k\<bar> = \<bar>x - real_of_int k / 2 ^ n\<bar> * 2 ^ n"
    by (simp add: abs_mult)
  also have "\<dots> < 1 / 2 ^ (n + 1) * 2 ^ n"
    using assms(4) by (intro mult_strict_right_mono) simp_all
  also have "\<dots> = 1 / 2" by simp
  finally have "round_even (x * 2 ^ n) = k" by (rule round_even_eqI)
  then show ?thesis using nz u by (simp add: rnd_def)
qed

lemma rnd_one: "rnd 1 = 1"
proof -
  have "rnd 1 = real_of_int 4503599627370496 / 2 ^ 52"
    by (rule rnd_eqI) simp_all
  then show ?thesis by simp
qed


lemma rnd_bound: "\<bar>rnd x\<bar> \<le> 2 * \<bar>x\<bar> + 1"
proof (cases "x = 0")
  case True
  then show ?thesis by (simp add: rnd_zero)
next
  case False
  have "ulp x \<le> \<bar>x\<bar> / 2 ^ 52 + 1 / 2 ^ 1074" using False by (rule ulp_le)
  moreover have "\<bar>x\<bar> / 2 ^ 52 \<le> \<bar>x\<bar>" by (simp add: field_simps)
  moreover have "(1 :: real) / 2 ^ 1074 \<le> 1" by simp
  ultimately show ?thesis using rnd_error [of x] by linarith
qed

lemma fl_Fin: "\<bar>x\<bar> \<le> 2 ^ 1022 \<Longrightarrow> fl x = Fin (rnd x)"
proof -
  assume a: "\<bar>x\<bar> \<le> 2 ^ 1022"
  have "(2 :: real) * 2 ^ 1022 + 1 < 2 ^ 1024" by simp
  then have "\<bar>rnd x\<bar> < 2 ^ 1024" using rnd_bound [of x] a by linarith
  then show ?thesis by (simp add: fl_def abs_if split: if_splits)
qed

lemma fl_zero: "fl 0 = Fin 0"
  by (simp add: fl_def rnd_zero)

lemma fl_one: "fl 1 = Fin 1"
  by (simp add: fl_def rnd_one)

lemma fl_eqI:
  fixes n :: nat and k :: int
  assumes "n \<le> 1074" and "2 ^ 52 / 2 ^ n \<le> \<bar>x\<bar>" and "\<bar>x\<bar> < 2 ^ 53 / 2 ^ n"
    and "\<bar>x - real_of_int k / 2 ^ n\<bar> < 1 / 2 ^ (n + 1)"
  shows "fl x = Fin (real_of_int k / 2 ^ n)"
proof -
  have r: "rnd x = real_of_int k / 2 ^ n" using assms by (rule rnd_eqI)
  have "(2 :: real) ^ 53 / 2 ^ n \<le> 2 ^ 53" by (simp add: field_simps)
  moreover have "(2 :: real) ^ 53 \<le> 2 ^ 1022" by simp
  ultimately have "\<bar>x\<bar> \<le> 2 ^ 1022" using assms(3) by linarith
  then show ?thesis using r by (simp add: fl_Fin)
qed

lemma fl_minus: "fl (- x) = js_neg (fl x)"
  by (simp add: fl_def rnd_minus)

lemma r64_neg: "r64 (js_neg x) = js_neg (r64 x)"
  by (cases x) (simp_all add: r64_def fl_minus)

lemma fl_nonneg: "0 \<le> x \<Longrightarrow> fl x = PInf \<or> (\<exists>r. fl x = Fin r \<and> 0 \<le> r)"
  using rnd_nonneg [of x] by (auto simp add: fl_def)

lemma rnd_error2: "\<bar>rnd x - x\<bar> \<le> \<bar>x\<bar> / 2 ^ 53 + 1 / 2 ^ 1075"
proof (cases "x = 0")
  case True
  then show ?thesis by (simp add: rnd_zero)
next
  case False
  have "ulp x \<le> \<bar>x\<bar> / 2 ^ 52 + 1 / 2 ^ 1074" using False by (rule ulp_le)
  then show ?thesis using rnd_error [of x] by simp
qed

text \<open>A number with at most 53 significant bits above the least exponent rounds to itself.\<close>

lemma rnd_representable:
  fixes k e :: int
  assumes "\<bar>k\<bar> < 2 ^ 53" and "- 1074 \<le> e"
  shows "rnd (real_of_int k * 2 powr real_of_int e) = real_of_int k * 2 powr real_of_int e"
proof (cases "k = 0")
  case True
  then show ?thesis by (simp add: rnd_zero)
next
  case False
  define r where "r = real_of_int k * 2 powr real_of_int e"
  define E where "E = max \<lfloor>log 2 \<bar>r\<bar>\<rfloor> (- 1022) - 52"
  have rpos: "0 < \<bar>r\<bar>" using False by (simp add: r_def)
  have "\<bar>real_of_int k\<bar> < 2 ^ 53" using assms(1) by (metis of_int_abs of_int_less_numeral_power_cancel_iff)
  then have "\<bar>r\<bar> < 2 ^ 53 * 2 powr real_of_int e"
    by (simp add: r_def abs_mult)
  also have "\<dots> = 2 powr (real_of_int (e + 52) + 1)"
    by (simp add: powr_add powr_realpow [symmetric] ac_simps)
  finally have "log 2 \<bar>r\<bar> < real_of_int (e + 52) + 1"
    using rpos by (simp add: log_less_iff)
  then have "\<lfloor>log 2 \<bar>r\<bar>\<rfloor> \<le> e + 52" by linarith
  then have Ee: "E \<le> e" using assms(2) by (simp add: E_def)
  have u: "ulp r = 2 powr real_of_int E" by (simp add: ulp_def E_def)
  have "2 powr real_of_int e = 2 powr real_of_int (e - E) * 2 powr real_of_int E"
    by (simp add: powr_add [symmetric])
  also have "2 powr real_of_int (e - E) = 2 ^ nat (e - E)"
  proof -
    have "(2 :: real) powr real_of_int (e - E) =
        (if 0 \<le> e - E then 2 ^ nat (e - E) else inverse (2 ^ nat (- (e - E))))"
      by (rule powr_real_of_int) simp
    then show ?thesis using Ee by simp
  qed
  finally have s: "r = real_of_int (k * 2 ^ nat (e - E)) * 2 powr real_of_int E"
    by (simp add: r_def)
  have "r / ulp r = r / 2 powr real_of_int E" by (simp only: u)
  also have "\<dots> = real_of_int (k * 2 ^ nat (e - E))" by (subst s) simp
  finally have q: "round_even (r / ulp r) = k * 2 ^ nat (e - E)"
    by (simp only: round_even_of_int)
  have "rnd r = real_of_int (round_even (r / ulp r)) * ulp r"
    using rpos by (simp add: rnd_def)
  also have "\<dots> = real_of_int (k * 2 ^ nat (e - E)) * ulp r"
    by (simp only: q)
  also have "\<dots> = real_of_int (k * 2 ^ nat (e - E)) * 2 powr real_of_int E"
    by (simp only: u)
  also have "\<dots> = r" by (rule s [symmetric])
  finally have "rnd r = r" .
  then show ?thesis by (simp add: r_def)
qed

lemma rnd_idem: "rnd (rnd x) = rnd x"
proof (cases "x = 0")
  case True
  then show ?thesis by (simp add: rnd_zero)
next
  case False
  define E where "E = max \<lfloor>log 2 \<bar>x\<bar>\<rfloor> (- 1022) - 52"
  define k where "k = round_even (x / ulp x)"
  have u: "ulp x = 2 powr real_of_int E" by (simp add: ulp_def E_def)
  have r: "rnd x = real_of_int k * 2 powr real_of_int E"
    using False by (simp add: rnd_def k_def u)
  have E: "- 1074 \<le> E" by (simp add: E_def)
  have xpos: "0 < \<bar>x\<bar>" using False by simp
  have "log 2 \<bar>x\<bar> < real_of_int \<lfloor>log 2 \<bar>x\<bar>\<rfloor> + 1" by linarith
  then have "\<bar>x\<bar> < 2 powr (real_of_int \<lfloor>log 2 \<bar>x\<bar>\<rfloor> + 1)"
    using xpos by (subst less_powr_iff) simp_all
  also have "\<dots> \<le> 2 powr (real_of_int E + 53)"
    by (simp add: E_def)
  also have "\<dots> = 2 ^ 53 * ulp x"
    by (simp add: u powr_add powr_realpow [symmetric] ac_simps)
  finally have "\<bar>x / ulp x\<bar> < 2 ^ 53"
    using ulp_pos [of x] by (simp add: abs_divide field_simps)
  then have "\<bar>real_of_int k\<bar> < 2 ^ 53 + 1"
    using round_even_close [of "x / ulp x"] unfolding k_def by linarith
  then have "\<bar>k\<bar> < 2 ^ 53 + 1"
    by (metis (mono_tags, opaque_lifting) of_int_abs of_int_less_iff of_int_add of_int_1 of_int_numeral of_int_power)
  then consider "\<bar>k\<bar> < 2 ^ 53" | "k = 2 ^ 53" | "k = - (2 ^ 53)" by linarith
  then show ?thesis
  proof cases
    case 1
    then show ?thesis unfolding r using E by (rule rnd_representable)
  next
    case 2
    have "real_of_int k * 2 powr real_of_int E = real_of_int (2 ^ 52) * 2 powr real_of_int (E + 1)"
      by (simp add: 2 powr_add)
    moreover have "rnd (real_of_int (2 ^ 52) * 2 powr real_of_int (E + 1)) =
        real_of_int (2 ^ 52) * 2 powr real_of_int (E + 1)"
      using E by (intro rnd_representable) simp_all
    ultimately show ?thesis unfolding r by simp
  next
    case 3
    have "real_of_int k * 2 powr real_of_int E = real_of_int (- (2 ^ 52)) * 2 powr real_of_int (E + 1)"
      by (simp add: 3 powr_add)
    moreover have "rnd (real_of_int (- (2 ^ 52)) * 2 powr real_of_int (E + 1)) =
        real_of_int (- (2 ^ 52)) * 2 powr real_of_int (E + 1)"
      using E by (intro rnd_representable) simp_all
    ultimately show ?thesis unfolding r by simp
  qed
qed

text \<open>Rounding is monotone, and a rounded value rounds to itself.\<close>

lemma round_even_mono:
  assumes "x \<le> y"
  shows "round_even x \<le> round_even y"
proof (rule ccontr)
  assume "\<not> round_even x \<le> round_even y"
  then have "round_even y + 1 \<le> round_even x" by simp
  then have lt: "real_of_int (round_even y) + 1 \<le> real_of_int (round_even x)"
    by (metis of_int_1 of_int_add of_int_le_iff)
  have cx: "\<bar>x - of_int (round_even x)\<bar> \<le> 1 / 2" by (rule round_even_close)
  have cy: "\<bar>y - of_int (round_even y)\<bar> \<le> 1 / 2" by (rule round_even_close)
  have xy: "x = y" using assms lt cx cy by linarith
  then show False using lt by simp
qed

lemma below_next_binade:
  assumes "0 < x"
  shows "x < 2 powr real_of_int (max \<lfloor>log 2 x\<rfloor> (- 1022) + 1)"
proof -
  have "log 2 x < real_of_int (\<lfloor>log 2 x\<rfloor> + 1)" by linarith
  also have "\<dots> \<le> real_of_int (max \<lfloor>log 2 x\<rfloor> (- 1022) + 1)" by simp
  finally have "log 2 x < real_of_int (max \<lfloor>log 2 x\<rfloor> (- 1022) + 1)" .
  then show ?thesis using assms by (subst less_powr_iff) simp_all
qed

lemma above_binade:
  assumes "0 < x"
  shows "2 powr real_of_int \<lfloor>log 2 x\<rfloor> \<le> x"
proof -
  have "real_of_int \<lfloor>log 2 x\<rfloor> \<le> log 2 x" by simp
  then show ?thesis using assms by (subst powr_le_iff) simp_all
qed

lemma ulp_times_53: "2 ^ 53 * ulp x = 2 powr real_of_int (max \<lfloor>log 2 \<bar>x\<bar>\<rfloor> (- 1022) + 1)"
proof -
  have "(2 :: real) ^ 53 = 2 powr real_of_int 53" by (subst powr_realpow [symmetric]) simp_all
  then have "2 ^ 53 * ulp x = 2 powr (real_of_int 53 + real_of_int (max \<lfloor>log 2 \<bar>x\<bar>\<rfloor> (- 1022) - 52))"
    unfolding ulp_def by (simp only: powr_add)
  also have "real_of_int 53 + real_of_int (max \<lfloor>log 2 \<bar>x\<bar>\<rfloor> (- 1022) - 52) =
      real_of_int (max \<lfloor>log 2 \<bar>x\<bar>\<rfloor> (- 1022) + 1)" by simp
  finally show ?thesis .
qed

lemma ulp_times_52: "2 ^ 52 * ulp x = 2 powr real_of_int (max \<lfloor>log 2 \<bar>x\<bar>\<rfloor> (- 1022))"
proof -
  have "(2 :: real) ^ 52 = 2 powr real_of_int 52" by (subst powr_realpow [symmetric]) simp_all
  then have "2 ^ 52 * ulp x = 2 powr (real_of_int 52 + real_of_int (max \<lfloor>log 2 \<bar>x\<bar>\<rfloor> (- 1022) - 52))"
    unfolding ulp_def by (simp only: powr_add)
  also have "real_of_int 52 + real_of_int (max \<lfloor>log 2 \<bar>x\<bar>\<rfloor> (- 1022) - 52) =
      real_of_int (max \<lfloor>log 2 \<bar>x\<bar>\<rfloor> (- 1022))" by simp
  finally show ?thesis .
qed

lemma rnd_below_next_binade:
  assumes "0 < x"
  shows "rnd x \<le> 2 powr real_of_int (max \<lfloor>log 2 x\<rfloor> (- 1022) + 1)"
proof -
  have u: "0 < ulp x" by (rule ulp_pos)
  have a: "\<bar>x\<bar> = x" using assms by simp
  have "x < 2 ^ 53 * ulp x" using below_next_binade [OF assms] ulp_times_53 [of x] a by simp
  then have "x / ulp x \<le> real_of_int (2 ^ 53)" using u by (simp add: field_simps)
  then have "round_even (x / ulp x) \<le> round_even (real_of_int (2 ^ 53))" by (rule round_even_mono)
  then have "round_even (x / ulp x) \<le> 2 ^ 53" by (simp only: round_even_of_int)
  then have "real_of_int (round_even (x / ulp x)) \<le> 2 ^ 53"
    by (metis of_int_le_iff of_int_numeral of_int_power)
  then have "real_of_int (round_even (x / ulp x)) * ulp x \<le> 2 ^ 53 * ulp x"
    using u by (intro mult_right_mono) simp_all
  then show ?thesis using assms ulp_times_53 [of x] a by (simp add: rnd_def)
qed

lemma rnd_above_binade:
  assumes "0 < y" and "- 1022 \<le> \<lfloor>log 2 y\<rfloor>"
  shows "2 powr real_of_int \<lfloor>log 2 y\<rfloor> \<le> rnd y"
proof -
  have u: "0 < ulp y" by (rule ulp_pos)
  have a: "\<bar>y\<bar> = y" using assms by simp
  have m: "max \<lfloor>log 2 y\<rfloor> (- 1022) = \<lfloor>log 2 y\<rfloor>" using assms(2) by simp
  have t: "2 ^ 52 * ulp y = 2 powr real_of_int \<lfloor>log 2 y\<rfloor>"
    using ulp_times_52 [of y] a m by simp
  have "2 ^ 52 * ulp y \<le> y" using above_binade [OF assms(1)] t by simp
  then have "real_of_int (2 ^ 52) \<le> y / ulp y" using u by (simp add: field_simps)
  then have "round_even (real_of_int (2 ^ 52)) \<le> round_even (y / ulp y)" by (rule round_even_mono)
  then have "2 ^ 52 \<le> round_even (y / ulp y)" by (simp only: round_even_of_int)
  then have "2 ^ 52 \<le> real_of_int (round_even (y / ulp y))"
    by (metis of_int_le_iff of_int_numeral of_int_power)
  then have "2 ^ 52 * ulp y \<le> real_of_int (round_even (y / ulp y)) * ulp y"
    using u by (intro mult_right_mono) simp_all
  then show ?thesis using assms(1) t by (simp add: rnd_def)
qed

lemma rnd_mono_pos:
  assumes "0 < x" and "x \<le> y"
  shows "rnd x \<le> rnd y"
proof -
  have y: "0 < y" using assms by linarith
  have l: "\<lfloor>log 2 x\<rfloor> \<le> \<lfloor>log 2 y\<rfloor>" using assms by (intro floor_mono) simp
  show ?thesis
  proof (cases "max \<lfloor>log 2 x\<rfloor> (- 1022) = max \<lfloor>log 2 y\<rfloor> (- 1022)")
    case True
    then have e: "ulp x = ulp y" using assms(1) y by (simp add: ulp_def)
    have "x / ulp y \<le> y / ulp y" using assms(2) ulp_pos [of y] by (simp add: divide_right_mono)
    then have "round_even (x / ulp y) \<le> round_even (y / ulp y)" by (rule round_even_mono)
    then have "real_of_int (round_even (x / ulp y)) \<le> real_of_int (round_even (y / ulp y))"
      by simp
    then have "real_of_int (round_even (x / ulp y)) * ulp y \<le>
        real_of_int (round_even (y / ulp y)) * ulp y"
      using ulp_pos [of y] by (intro mult_right_mono) simp_all
    then show ?thesis using assms(1) y e by (simp add: rnd_def)
  next
    case False
    then have lt: "max \<lfloor>log 2 x\<rfloor> (- 1022) + 1 \<le> \<lfloor>log 2 y\<rfloor>" using l by linarith
    then have n: "- 1022 \<le> \<lfloor>log 2 y\<rfloor>" by linarith
    have "rnd x \<le> 2 powr real_of_int (max \<lfloor>log 2 x\<rfloor> (- 1022) + 1)"
      using assms(1) by (rule rnd_below_next_binade)
    also have "\<dots> \<le> 2 powr real_of_int \<lfloor>log 2 y\<rfloor>"
      using lt by (intro powr_mono) simp_all
    also have "\<dots> \<le> rnd y" using y n by (rule rnd_above_binade)
    finally show ?thesis .
  qed
qed

lemma rnd_mono:
  assumes "x \<le> y"
  shows "rnd x \<le> rnd y"
proof -
  consider "0 < x" | "y < 0" | "x \<le> 0" "0 \<le> y" by linarith
  then show ?thesis
  proof cases
    case 1
    then show ?thesis using assms by (rule rnd_mono_pos)
  next
    case 2
    then have "0 < - y" "- y \<le> - x" using assms by simp_all
    then have "rnd (- y) \<le> rnd (- x)" by (rule rnd_mono_pos)
    then show ?thesis by (simp add: rnd_minus)
  next
    case 3
    have "0 \<le> rnd (- x)" using 3(1) by (intro rnd_nonneg) simp
    then have "rnd x \<le> 0" by (simp add: rnd_minus)
    moreover have "0 \<le> rnd y" using 3(2) by (rule rnd_nonneg)
    ultimately show ?thesis by linarith
  qed
qed

lemma isDouble_rnd: "isDouble d \<Longrightarrow> rnd d = d"
  by (simp add: isDouble_def fl_def split: if_splits)

lemma isDouble_range: "isDouble d \<Longrightarrow> - (2 ^ 1024) < d \<and> d < 2 ^ 1024"
  by (simp add: isDouble_def fl_def split: if_splits)

lemma fl_isDouble: "fl x = Fin r \<Longrightarrow> isDouble r"
proof -
  assume a: "fl x = Fin r"
  then have r: "r = rnd x" "\<not> 2 ^ 1024 \<le> rnd x" "\<not> rnd x \<le> - (2 ^ 1024)"
    by (simp_all add: fl_def split: if_splits)
  show "isDouble r" using r by (simp add: isDouble_def fl_def rnd_idem)
qed

lemma r64_idem: "r64 (r64 x) = r64 x"
proof (cases x)
  case x: (Fin a)
  show ?thesis
  proof (cases "fl a")
    case (Fin r)
    then have "fl r = Fin r" using fl_isDouble [of a r] by (simp add: isDouble_def)
    then show ?thesis using x Fin by (simp add: r64_def)
  qed (simp_all add: r64_def x)
qed (simp_all add: r64_def)

lemma fl_above:
  assumes "isDouble d" and "d \<le> x"
  shows "js_ge (fl x) (Fin d)"
proof -
  have "rnd d \<le> rnd x" using assms(2) by (rule rnd_mono)
  then have "d \<le> rnd x" using isDouble_rnd [OF assms(1)] by simp
  then show ?thesis using isDouble_range [OF assms(1)] by (simp add: fl_def)
qed

section \<open>Facts about the interpolation in binary64\<close>

lemma small_finite: "\<bar>x\<bar> \<le> 2000 \<Longrightarrow> fl x = Fin (rnd x)"
proof -
  assume "\<bar>x\<bar> \<le> 2000"
  moreover have "(2000 :: real) \<le> 2 ^ 1022" by simp
  ultimately have "\<bar>x\<bar> \<le> 2 ^ 1022" by linarith
  then show ?thesis by (rule fl_Fin)
qed

text \<open>One coordinate of the interpolation at progress 0 and at progress 1.\<close>

lemma lerp64_zero:
  assumes "isDouble c" and "\<bar>c\<bar> \<le> 180" and "\<bar>n\<bar> \<le> 180"
  shows "add64 (Fin c) (mul64 (sub64 (Fin n) (Fin c)) (Fin 0)) = Fin c"
proof -
  have "\<bar>n - c\<bar> \<le> 2000" using assms(2,3) by linarith
  then have "sub64 (Fin n) (Fin c) = Fin (rnd (n - c))"
    by (simp add: sub64_def js_sub_def r64_def small_finite)
  then show ?thesis
    using assms(1) by (simp add: add64_def mul64_def r64_def fl_zero isDouble_def)
qed

lemma lerp64_one:
  assumes "\<bar>c\<bar> \<le> 180" and "\<bar>n\<bar> \<le> 180"
  shows "\<exists>x. add64 (Fin c) (mul64 (sub64 (Fin n) (Fin c)) (Fin 1)) = Fin x \<and>
             \<bar>x - n\<bar> \<le> (\<bar>n\<bar> + \<bar>n - c\<bar>) / 2 ^ 52 + 1 / 2 ^ 1073"
proof -
  define r where "r = rnd (n - c)"
  have d: "\<bar>n - c\<bar> \<le> 360" using assms by linarith
  have s: "sub64 (Fin n) (Fin c) = Fin r"
    using d by (simp add: sub64_def js_sub_def r64_def small_finite r_def)
  have rb: "\<bar>r\<bar> \<le> 721" using rnd_bound [of "n - c"] d by (simp add: r_def)
  have m: "mul64 (Fin r) (Fin 1) = Fin r"
    using rb by (simp add: mul64_def r64_def small_finite) (simp add: r_def rnd_idem)
  have a: "add64 (Fin c) (Fin r) = Fin (rnd (c + r))"
    using rb assms(1) by (simp add: add64_def r64_def small_finite)
  have e1: "\<bar>r - (n - c)\<bar> \<le> \<bar>n - c\<bar> / 2 ^ 53 + 1 / 2 ^ 1075"
    unfolding r_def by (rule rnd_error2)
  have e2: "\<bar>rnd (c + r) - (c + r)\<bar> \<le> \<bar>c + r\<bar> / 2 ^ 53 + 1 / 2 ^ 1075"
    by (rule rnd_error2)
  define A where "A = \<bar>n\<bar>"
  define B where "B = \<bar>n - c\<bar>"
  define e where "e = \<bar>r - (n - c)\<bar>"
  have cr: "\<bar>c + r\<bar> \<le> A + e" unfolding A_def e_def by linarith
  have "\<bar>c + r\<bar> / 2 ^ 53 \<le> (A + e) / 2 ^ 53"
    using cr by (intro divide_right_mono) simp_all
  also have "\<dots> = A / 2 ^ 53 + e / 2 ^ 53" by (simp add: add_divide_distrib)
  also have "e / 2 ^ 53 \<le> e" by (simp add: e_def field_simps)
  finally have f: "\<bar>c + r\<bar> / 2 ^ 53 \<le> A / 2 ^ 53 + e" by simp
  have g: "e \<le> B / 2 ^ 53 + 1 / 2 ^ 1075" using e1 by (simp add: e_def B_def)
  have t: "\<bar>rnd (c + r) - n\<bar> \<le> \<bar>rnd (c + r) - (c + r)\<bar> + e" unfolding e_def by linarith
  have h: "A / 2 ^ 53 + 2 * (B / 2 ^ 53) \<le> (A + B) / 2 ^ 52"
    by (simp add: A_def B_def field_simps)
  have i: "(3 :: real) / 2 ^ 1075 \<le> 1 / 2 ^ 1073" by simp
  have "\<bar>rnd (c + r) - n\<bar> \<le> (A + B) / 2 ^ 52 + 1 / 2 ^ 1073"
    using t e2 f g h i by linarith
  then show ?thesis
    unfolding s m a A_def B_def by blast
qed

lemma pointA_double: "isDouble (6305039478318694 / 2 ^ 53)"
proof -
  have "fl (6305039478318694 / 2 ^ 53) = Fin (real_of_int 6305039478318694 / 2 ^ 53)"
    by (rule fl_eqI) simp_all
  then show ?thesis by (simp add: isDouble_def)
qed

lemma pointB_double: "isDouble (3602879701896397 / 2 ^ 55)"
proof -
  have "fl (3602879701896397 / 2 ^ 55) = Fin (real_of_int 7205759403792794 / 2 ^ 56)"
    by (rule fl_eqI) simp_all
  then show ?thesis by (simp add: isDouble_def)
qed

text \<open>The three roundings of \<open>0.7 + (0.1 - 0.7) * 1\<close>.\<close>

lemma lerp64_sample:
  "add64 (Fin (6305039478318694 / 2 ^ 53))
     (mul64 (sub64 (Fin (3602879701896397 / 2 ^ 55)) (Fin (6305039478318694 / 2 ^ 53))) (Fin 1)) =
   Fin (900719925474099 / 2 ^ 53)"
proof -
  have "fl (3602879701896397 / 2 ^ 55 - 6305039478318694 / 2 ^ 53) =
      Fin (real_of_int (- 5404319552844595) / 2 ^ 53)"
    by (rule fl_eqI) simp_all
  then have s: "sub64 (Fin (3602879701896397 / 2 ^ 55)) (Fin (6305039478318694 / 2 ^ 53)) =
      Fin (- (5404319552844595 / 2 ^ 53))"
    by (simp add: sub64_def js_sub_def r64_def)
  have "fl (- (5404319552844595 / 2 ^ 53) * 1) = Fin (real_of_int (- 5404319552844595) / 2 ^ 53)"
    by (rule fl_eqI) simp_all
  then have m: "mul64 (Fin (- (5404319552844595 / 2 ^ 53))) (Fin 1) =
      Fin (- (5404319552844595 / 2 ^ 53))"
    by (simp add: mul64_def r64_def)
  have "fl (6305039478318694 / 2 ^ 53 + - (5404319552844595 / 2 ^ 53)) =
      Fin (real_of_int 7205759403792792 / 2 ^ 56)"
    by (rule fl_eqI) simp_all
  then have a: "add64 (Fin (6305039478318694 / 2 ^ 53)) (Fin (- (5404319552844595 / 2 ^ 53))) =
      Fin (900719925474099 / 2 ^ 53)"
    by (simp add: add64_def r64_def)
  show ?thesis unfolding s m a ..
qed

section \<open>Facts about the binary64 great-circle distance\<close>





lemma mul64_NaN: "mul64 x NaN = NaN"
  by (simp add: mul64_def r64_def js_mul_NaN_right)

lemma atan2_64_NaN: "atan2_64 NaN x = NaN" "atan2_64 y NaN = NaN"
  by (simp_all add: atan2_64_def r64_def js_atan2_NaN_right)



lemma js_mul_neg_left: "js_mul (js_neg x) y = js_neg (js_mul x y)"
  by (cases x; cases y) (auto simp add: not_less)


lemma js_div_neg_left: "0 < c \<Longrightarrow> js_div (js_neg x) (Fin c) = js_neg (js_div x (Fin c))"
  by (cases x) simp_all

lemma mul64_neg_left: "mul64 (js_neg x) y = js_neg (mul64 x y)"
  by (simp add: mul64_def js_mul_neg_left r64_neg)



lemma div64_neg_left: "0 < c \<Longrightarrow> div64 (js_neg x) (Fin c) = js_neg (div64 x (Fin c))"
  by (simp add: div64_def js_div_neg_left r64_neg)


lemma toRad64_neg: "toRad64 (js_neg x) = js_neg (toRad64 x)"
  by (simp add: toRad64_def mul64_neg_left div64_neg_left)






section \<open>Sines and cosines from their Maclaurin polynomials\<close>

lemma sin_sum_25:
  "(\<Sum>m<25. sin_coeff m * x ^ m) =
     x - x^3 / fact 3 + x^5 / fact 5 - x^7 / fact 7 + x^9 / fact 9 - x^11 / fact 11
     + x^13 / fact 13 - x^15 / fact 15 + x^17 / fact 17 - x^19 / fact 19 + x^21 / fact 21
     - x^23 / fact 23" for x :: real
  by (simp add: sin_coeff_def lessThan_nat_numeral fact_numeral)

lemma cos_sum_24:
  "(\<Sum>m<24. cos_coeff m * x ^ m) =
     1 - x^2 / fact 2 + x^4 / fact 4 - x^6 / fact 6 + x^8 / fact 8 - x^10 / fact 10
     + x^12 / fact 12 - x^14 / fact 14 + x^16 / fact 16 - x^18 / fact 18 + x^20 / fact 20
     - x^22 / fact 22" for x :: real
  by (simp add: cos_coeff_def lessThan_nat_numeral fact_numeral)

lemma cos_bound: "\<bar>cos x - (\<Sum>m<n. cos_coeff m * x ^ m)\<bar> \<le> \<bar>x\<bar> ^ n / fact n" for x :: real
proof -
  obtain t where t: "cos x = (\<Sum>m<n. cos_coeff m * x ^ m) + (cos (t + 1/2 * real n * pi) / fact n) * x ^ n"
    using Maclaurin_cos_expansion [of x n] by blast
  have "\<bar>cos x - (\<Sum>m<n. cos_coeff m * x ^ m)\<bar> = \<bar>cos (t + 1/2 * real n * pi)\<bar> * (\<bar>x\<bar> ^ n / fact n)"
    unfolding t by (simp add: abs_mult power_abs)
  also have "\<dots> \<le> 1 * (\<bar>x\<bar> ^ n / fact n)"
    by (intro mult_right_mono) simp_all
  finally show ?thesis by simp
qed


section \<open>One evaluation in binary64\<close>

lemma step_mul_lat: "mul64 (Fin (3968093484178473 / 2 ^ 46)) (Fin mathPI) = Fin (1558266667331577 / 2 ^ 43)"
proof -
  have "fl ((3968093484178473 / 2 ^ 46) * mathPI) = Fin (real_of_int 6233066669326308 / 2 ^ 45)"
    by (rule fl_eqI) (simp_all add: mathPI_def)
  then show ?thesis by (simp add: mul64_def r64_def js_sub_def)
qed

lemma step_div_lat: "div64 (Fin (1558266667331577 / 2 ^ 43)) (Fin 180) = Fin (8864805929708527 / 2 ^ 53)"
proof -
  have "fl ((1558266667331577 / 2 ^ 43) / 180) = Fin (real_of_int 8864805929708527 / 2 ^ 53)"
    by (rule fl_eqI) simp_all
  then show ?thesis by (simp add: div64_def r64_def js_sub_def)
qed

lemma step_sub_lat: "sub64 (Fin (3968093484178473 / 2 ^ 46)) (Fin (- (3968093484178473 / 2 ^ 46))) = Fin (3968093484178473 / 2 ^ 45)"
proof -
  have "fl ((3968093484178473 / 2 ^ 46) - (- (3968093484178473 / 2 ^ 46))) = Fin (real_of_int 7936186968356946 / 2 ^ 46)"
    by (rule fl_eqI) simp_all
  then show ?thesis by (simp add: sub64_def r64_def js_sub_def)
qed

lemma step_mul_dlat: "mul64 (Fin (3968093484178473 / 2 ^ 45)) (Fin mathPI) = Fin (1558266667331577 / 2 ^ 42)"
proof -
  have "fl ((3968093484178473 / 2 ^ 45) * mathPI) = Fin (real_of_int 6233066669326308 / 2 ^ 44)"
    by (rule fl_eqI) (simp_all add: mathPI_def)
  then show ?thesis by (simp add: mul64_def r64_def js_sub_def)
qed

lemma step_div_dlat: "div64 (Fin (1558266667331577 / 2 ^ 42)) (Fin 180) = Fin (8864805929708527 / 2 ^ 52)"
proof -
  have "fl ((1558266667331577 / 2 ^ 42) / 180) = Fin (real_of_int 8864805929708527 / 2 ^ 52)"
    by (rule fl_eqI) simp_all
  then show ?thesis by (simp add: div64_def r64_def js_sub_def)
qed

lemma step_half_dlat: "div64 (Fin (8864805929708527 / 2 ^ 52)) (Fin 2) = Fin (8864805929708527 / 2 ^ 53)"
proof -
  have "fl ((8864805929708527 / 2 ^ 52) / 2) = Fin (real_of_int 8864805929708527 / 2 ^ 53)"
    by (rule fl_eqI) simp_all
  then show ?thesis by (simp add: div64_def r64_def js_sub_def)
qed

lemma step_sub_lon: "sub64 (Fin 180) (Fin 0) = Fin 180"
proof -
  have "fl (180 - 0) = Fin (real_of_int 6333186975989760 / 2 ^ 45)"
    by (rule fl_eqI) simp_all
  then show ?thesis by (simp add: sub64_def r64_def js_sub_def)
qed

lemma step_mul_dlon: "mul64 (Fin 180) (Fin mathPI) = Fin (4974073419394997 / 2 ^ 43)"
proof -
  have "fl (180 * mathPI) = Fin (real_of_int 4974073419394997 / 2 ^ 43)"
    by (rule fl_eqI) (simp_all add: mathPI_def)
  then show ?thesis by (simp add: mul64_def r64_def js_sub_def)
qed

lemma step_div_dlon: "div64 (Fin (4974073419394997 / 2 ^ 43)) (Fin 180) = Fin (884279719003555 / 2 ^ 48)"
proof -
  have "fl ((4974073419394997 / 2 ^ 43) / 180) = Fin (real_of_int 7074237752028440 / 2 ^ 51)"
    by (rule fl_eqI) simp_all
  then show ?thesis by (simp add: div64_def r64_def js_sub_def)
qed

lemma step_half_dlon: "div64 (Fin (884279719003555 / 2 ^ 48)) (Fin 2) = Fin (884279719003555 / 2 ^ 49)"
proof -
  have "fl ((884279719003555 / 2 ^ 48) / 2) = Fin (real_of_int 7074237752028440 / 2 ^ 52)"
    by (rule fl_eqI) simp_all
  then show ?thesis by (simp add: div64_def r64_def js_sub_def)
qed

lemma step_sin_sq: "mul64 (Fin (7501417503566813 / 2 ^ 53)) (Fin (7501417503566813 / 2 ^ 53)) = Fin (6247365354241481 / 2 ^ 53)"
proof -
  have "fl ((7501417503566813 / 2 ^ 53) * (7501417503566813 / 2 ^ 53)) = Fin (real_of_int 6247365354241481 / 2 ^ 53)"
    by (rule fl_eqI) simp_all
  then show ?thesis by (simp add: mul64_def r64_def js_sub_def)
qed

lemma step_cos_sq: "mul64 (Fin (4985817270196345 / 2 ^ 53)) (Fin (4985817270196345 / 2 ^ 53)) = Fin (5519667800999025 / 2 ^ 54)"
proof -
  have "fl ((4985817270196345 / 2 ^ 53) * (4985817270196345 / 2 ^ 53)) = Fin (real_of_int 5519667800999025 / 2 ^ 54)"
    by (rule fl_eqI) simp_all
  then show ?thesis by (simp add: mul64_def r64_def js_sub_def)
qed

lemma step_times_one: "mul64 (Fin (5519667800999025 / 2 ^ 54)) (Fin 1) = Fin (5519667800999025 / 2 ^ 54)"
proof -
  have "fl ((5519667800999025 / 2 ^ 54) * 1) = Fin (real_of_int 5519667800999025 / 2 ^ 54)"
    by (rule fl_eqI) simp_all
  then show ?thesis by (simp add: mul64_def r64_def js_sub_def)
qed

lemma step_add: "add64 (Fin (6247365354241481 / 2 ^ 53)) (Fin (5519667800999025 / 2 ^ 54)) = Fin (4503599627370497 / 2 ^ 52)"
proof -
  have "fl ((6247365354241481 / 2 ^ 53) + (5519667800999025 / 2 ^ 54)) = Fin (real_of_int 4503599627370497 / 2 ^ 52)"
    by (rule fl_eqI) simp_all
  then show ?thesis by (simp add: add64_def r64_def js_sub_def)
qed

lemma step_one_minus: "sub64 (Fin 1) (Fin (4503599627370497 / 2 ^ 52)) = Fin (- (1 / 2 ^ 52))"
proof -
  have "fl (1 - (4503599627370497 / 2 ^ 52)) = Fin (real_of_int (- 4503599627370496) / 2 ^ 104)"
    by (rule fl_eqI) simp_all
  then show ?thesis by (simp add: sub64_def r64_def js_sub_def)
qed

lemma sin64_lat: "sin64 (Fin (8864805929708527 / 2 ^ 53)) = Fin (7501417503566813 / 2 ^ 53)"
proof -
  define y :: real where "y = (8864805929708527 / 2 ^ 53)"
  define P where "P = y - y^3 / fact 3 + y^5 / fact 5 - y^7 / fact 7 + y^9 / fact 9
     - y^11 / fact 11 + y^13 / fact 13 - y^15 / fact 15 + y^17 / fact 17 - y^19 / fact 19
     + y^21 / fact 21 - y^23 / fact 23"
  define E where "E = inverse (fact 25) * \<bar>y\<bar> ^ 25"
  have m: "\<bar>sin y - P\<bar> \<le> E"
    using Maclaurin_sin_bound [of y 25] unfolding sin_sum_25 P_def E_def .
  have p: "\<bar>P - 7501417503566813 / 2 ^ 53\<bar> + E < 1 / 2 ^ 54"
    by (simp add: P_def E_def y_def fact_numeral power_divide)
  have c: "\<bar>sin y - 7501417503566813 / 2 ^ 53\<bar> < 1 / 2 ^ 54"
    using m p by linarith
  have "fl (sin y) = Fin (real_of_int 7501417503566813 / 2 ^ 53)"
  proof (rule fl_eqI)
    have b: "7501417503566813 / 2 ^ 53 - 1 / 2 ^ 54 < sin y" "sin y < 7501417503566813 / 2 ^ 53 + 1 / 2 ^ 54"
      using c unfolding abs_diff_less_iff by blast+
    have "(1 :: real) / 2 \<le> 7501417503566813 / 2 ^ 53 - 1 / 2 ^ 54" by simp
    then have lo: "1 / 2 < sin y" using b(1) by (rule le_less_trans)
    have "7501417503566813 / 2 ^ 53 + 1 / 2 ^ 54 \<le> (1 :: real)" by simp
    with b(2) have hi: "sin y < 1" by (rule less_le_trans)
    have a: "\<bar>sin y\<bar> = sin y" using lo by simp
    show "(53 :: nat) \<le> 1074" by simp
    show "2 ^ 52 / 2 ^ 53 \<le> \<bar>sin y\<bar>" unfolding a using lo by simp
    show "\<bar>sin y\<bar> < 2 ^ 53 / 2 ^ 53" unfolding a using hi by simp
    show "\<bar>sin y - real_of_int 7501417503566813 / 2 ^ 53\<bar> < 1 / 2 ^ (53 + 1)" using c by simp
  qed
  then show ?thesis by (simp add: y_def sin64_def r64_def)
qed

lemma cos64_lat: "cos64 (Fin (8864805929708527 / 2 ^ 53)) = Fin (4985817270196345 / 2 ^ 53)"
proof -
  define y :: real where "y = (8864805929708527 / 2 ^ 53)"
  define P where "P = 1 - y^2 / fact 2 + y^4 / fact 4 - y^6 / fact 6 + y^8 / fact 8
     - y^10 / fact 10 + y^12 / fact 12 - y^14 / fact 14 + y^16 / fact 16 - y^18 / fact 18
     + y^20 / fact 20 - y^22 / fact 22"
  define E where "E = \<bar>y\<bar> ^ 24 / fact 24"
  have m: "\<bar>cos y - P\<bar> \<le> E"
    using cos_bound [of y 24] unfolding cos_sum_24 P_def E_def .
  have p: "\<bar>P - 4985817270196345 / 2 ^ 53\<bar> + E < 1 / 2 ^ 54"
    by (simp add: P_def E_def y_def fact_numeral power_divide)
  have c: "\<bar>cos y - 4985817270196345 / 2 ^ 53\<bar> < 1 / 2 ^ 54"
    using m p by linarith
  have "fl (cos y) = Fin (real_of_int 4985817270196345 / 2 ^ 53)"
  proof (rule fl_eqI)
    have b: "4985817270196345 / 2 ^ 53 - 1 / 2 ^ 54 < cos y" "cos y < 4985817270196345 / 2 ^ 53 + 1 / 2 ^ 54"
      using c unfolding abs_diff_less_iff by blast+
    have "(1 :: real) / 2 \<le> 4985817270196345 / 2 ^ 53 - 1 / 2 ^ 54" by simp
    then have lo: "1 / 2 < cos y" using b(1) by (rule le_less_trans)
    have "4985817270196345 / 2 ^ 53 + 1 / 2 ^ 54 \<le> (1 :: real)" by simp
    with b(2) have hi: "cos y < 1" by (rule less_le_trans)
    have a: "\<bar>cos y\<bar> = cos y" using lo by simp
    show "(53 :: nat) \<le> 1074" by simp
    show "2 ^ 52 / 2 ^ 53 \<le> \<bar>cos y\<bar>" unfolding a using lo by simp
    show "\<bar>cos y\<bar> < 2 ^ 53 / 2 ^ 53" unfolding a using hi by simp
    show "\<bar>cos y - real_of_int 4985817270196345 / 2 ^ 53\<bar> < 1 / 2 ^ (53 + 1)" using c by simp
  qed
  then show ?thesis by (simp add: y_def cos64_def r64_def)
qed

lemma sin64_half_pi: "sin64 (Fin (884279719003555 / 2 ^ 49)) = Fin 1"
proof -
  define y :: real where "y = (884279719003555 / 2 ^ 49)"
  define P where "P = y - y^3 / fact 3 + y^5 / fact 5 - y^7 / fact 7 + y^9 / fact 9
     - y^11 / fact 11 + y^13 / fact 13 - y^15 / fact 15 + y^17 / fact 17 - y^19 / fact 19
     + y^21 / fact 21 - y^23 / fact 23"
  define E where "E = inverse (fact 25) * \<bar>y\<bar> ^ 25"
  have m: "\<bar>sin y - P\<bar> \<le> E"
    using Maclaurin_sin_bound [of y 25] unfolding sin_sum_25 P_def E_def .
  have p: "\<bar>P - 9007199254740992 / 2 ^ 53\<bar> + E < 1 / 2 ^ 54"
    by (simp add: P_def E_def y_def fact_numeral power_divide)
  have c: "\<bar>sin y - 9007199254740992 / 2 ^ 53\<bar> < 1 / 2 ^ 54"
    using m p by linarith
  have "fl (sin y) = Fin 1"
  proof (cases "sin y = 1")
    case True
    then show ?thesis by (simp add: fl_one)
  next
    case False
    then have l: "sin y < 1" using sin_le_one [of y] by linarith
    have "fl (sin y) = Fin (real_of_int 9007199254740992 / 2 ^ 53)"
    proof (rule fl_eqI)
      have b: "9007199254740992 / 2 ^ 53 - 1 / 2 ^ 54 < sin y"
        using c unfolding abs_diff_less_iff by blast
      have "(1 :: real) / 2 \<le> 9007199254740992 / 2 ^ 53 - 1 / 2 ^ 54" by simp
      then have lo: "1 / 2 < sin y" using b by (rule le_less_trans)
      have a: "\<bar>sin y\<bar> = sin y" using lo by simp
      show "(53 :: nat) \<le> 1074" by simp
      show "2 ^ 52 / 2 ^ 53 \<le> \<bar>sin y\<bar>" unfolding a using lo by simp
      show "\<bar>sin y\<bar> < 2 ^ 53 / 2 ^ 53" unfolding a using l by simp
      show "\<bar>sin y - real_of_int 9007199254740992 / 2 ^ 53\<bar> < 1 / 2 ^ (53 + 1)"
        using c by simp
    qed
    then show ?thesis by simp
  qed
  then show ?thesis by (simp add: y_def sin64_def r64_def)
qed

lemma toRad64_lat: "toRad64 (Fin (3968093484178473 / 2 ^ 46)) = Fin (8864805929708527 / 2 ^ 53)"
  unfolding toRad64_def step_mul_lat step_div_lat ..

lemma toRad64_neg_lat: "toRad64 (Fin (- (3968093484178473 / 2 ^ 46))) = Fin (- (8864805929708527 / 2 ^ 53))"
proof -
  have "toRad64 (Fin (- (3968093484178473 / 2 ^ 46))) = toRad64 (js_neg (Fin (3968093484178473 / 2 ^ 46)))" by simp
  also have "\<dots> = js_neg (toRad64 (Fin (3968093484178473 / 2 ^ 46)))" by (rule toRad64_neg)
  also have "\<dots> = js_neg (Fin (8864805929708527 / 2 ^ 53))" by (simp only: toRad64_lat)
  also have "\<dots> = Fin (- (8864805929708527 / 2 ^ 53))" by simp
  finally show ?thesis .
qed

lemma toRad64_dlat: "toRad64 (sub64 (Fin (3968093484178473 / 2 ^ 46)) (Fin (- (3968093484178473 / 2 ^ 46)))) = Fin (8864805929708527 / 2 ^ 52)"
  unfolding toRad64_def step_sub_lat step_mul_dlat step_div_dlat ..

lemma toRad64_dlon: "toRad64 (sub64 (Fin 180) (Fin 0)) = Fin (884279719003555 / 2 ^ 48)"
  unfolding toRad64_def step_sub_lon step_mul_dlon step_div_dlon ..

lemma cos64_neg_lat: "cos64 (Fin (- (8864805929708527 / 2 ^ 53))) = Fin (4985817270196345 / 2 ^ 53)"
proof -
  have "cos64 (Fin (- (8864805929708527 / 2 ^ 53))) = cos64 (Fin (8864805929708527 / 2 ^ 53))" by (simp add: cos64_def)
  then show ?thesis by (simp only: cos64_lat)
qed

lemma antipodal_sqrt: "sqrt64 (Fin (- (1 / 2 ^ 52))) = NaN"
  by (simp add: sqrt64_def r64_def)

lemma haversineDistance64_antipodal:
  "haversineDistance64 (Fin (- (3968093484178473 / 2 ^ 46))) (Fin 0) (Fin (3968093484178473 / 2 ^ 46)) (Fin 180) = NaN"
  unfolding haversineDistance64_def Let_def toRad64_dlat toRad64_dlon step_half_dlat
    step_half_dlon toRad64_lat toRad64_neg_lat sin64_lat cos64_lat cos64_neg_lat sin64_half_pi
    step_sin_sq step_cos_sq step_times_one step_add step_one_minus antipodal_sqrt
    atan2_64_NaN mul64_NaN ..

section \<open>The frame of a running component in binary64\<close>

lemma elapsed64_pending: "elapsed64 t (s\<lparr>animationPending := b\<rparr>) = elapsed64 t s"
  by (simp add: elapsed64_def startTime_pending)

lemma progress64_pending: "progress64 t (s\<lparr>animationPending := b\<rparr>) = progress64 t s"
  by (simp add: progress64_def segmentElapsed64_def elapsed64_pending)

lemma position64_pending: "position64 t (s\<lparr>animationPending := b\<rparr>) = position64 t s"
  by (simp add: position64_def progress64_pending)

lemma secDiff64_pending: "secDiff64 t (s\<lparr>animationPending := b\<rparr>) = secDiff64 t s"
  by (simp add: secDiff64_def)

lemmas pending64_simps =
  startTime_pending elapsed64_pending progress64_pending position64_pending secDiff64_pending

lemma step64_frame_running:
  assumes "playing s" and "animationPending s" and "currentIndex s + 1 < length (route s)"
  shows "step64 (Frame t t') s =
     (case timestamp (route s ! currentIndex s) of
        None \<Rightarrow> sampled64 t s
      | Some ms \<Rightarrow>
          if js_ge (progress64 t s) (Fin 1)
          then (sampled64 t s)\<lparr>lastTimestampRef := Some ms, currentIndex := currentIndex s + 1,
                 progressRef := Fin 0, startTimeRef := None, animationPending := True\<rparr>
          else (sampled64 t s)\<lparr>lastTimestampRef := Some ms, animationPending := True\<rparr>)"
proof -
  have ne: "route s \<noteq> []" using assms(3) by auto
  show ?thesis
    using assms ne
    by (cases "lastPositionRef s"; cases "timestamp (route s ! currentIndex s)";
        cases "js_ge (progress64 t s) (Fin 1)"; cases "position64 t s")
      (simp_all add: frame64_def animate64_def Let_def pending64_simps sampled64_def
        settle_same settle_advanced case_prod_beta)
qed

lemma step64_frame_idle:
  assumes "\<not> playing s \<or> route s = []"
  shows "step64 (Frame t t') s = s\<lparr>animationPending := False\<rparr>"
proof (cases "animationPending s")
  case True
  then show ?thesis using assms by (auto simp add: frame64_def animate64_def settle_same)
next
  case False
  then show ?thesis by simp
qed

lemma step64_frame_terminal:
  assumes "playing s" and "animationPending s" and "route s \<noteq> []"
    and "\<not> currentIndex s + 1 < length (route s)"
  shows "step64 (Frame t t') s =
     s\<lparr>playing := False, currentIndex := 0, elapsedTime := Fin 0, distanceTravelled := Fin 0,
       speed := Fin 0, progressRef := Fin 0, lastTimestampRef := None,
       lastPositionRef := None, animationPending := False\<rparr>"
  using assms by (simp add: frame64_def animate64_def settle_stopped)

lemma step64_cases:
  assumes "P s"
    and "P (s\<lparr>animationPending := False\<rparr>)"
    and "\<not> playing s \<Longrightarrow> P (s\<lparr>playing := True, startTimeRef := None, animationPending := True\<rparr>)"
    and "P (clickReset s)"
    and "P (s\<lparr>playing := False, currentIndex := 0, elapsedTime := Fin 0,
              distanceTravelled := Fin 0, speed := Fin 0, progressRef := Fin 0,
              lastTimestampRef := None, lastPositionRef := None, animationPending := False\<rparr>)"
    and "\<And>t t'. playing s \<Longrightarrow> animationPending s \<Longrightarrow> currentIndex s + 1 < length (route s) \<Longrightarrow>
           P (step64 (Frame t t') s)"
  shows "P (step64 e s)"
proof (cases e)
  case ClickPlayPause
  then show ?thesis
    using assms(1,3,5) by (cases "playing s") (simp_all add: clickPlayPause_play clickPlayPause_pause)
next
  case ClickReset
  then show ?thesis using assms(1,4) by simp
next
  case (Frame t t')
  show ?thesis
  proof (cases "animationPending s")
    case False
    then show ?thesis using Frame assms(1) by simp
  next
    case pending: True
    show ?thesis
    proof (cases "\<not> playing s \<or> route s = []")
      case True
      then show ?thesis using Frame assms(2) step64_frame_idle [of s t t'] by simp
    next
      case running: False
      show ?thesis
      proof (cases "currentIndex s + 1 < length (route s)")
        case True
        then show ?thesis using Frame running pending assms(6) by simp
      next
        case False
        then show ?thesis
          using Frame running pending assms(5) step64_frame_terminal [of s t t'] by simp
      qed
    qed
  qed
qed

lemma route_step64: "route (step64 e s) = route s"
proof (rule step64_cases [where P = "\<lambda>x. route x = route s"])
  fix t t' assume "playing s" "animationPending s" "currentIndex s + 1 < length (route s)"
  then show "route (step64 (Frame t t') s) = route s"
    by (simp add: step64_frame_running sampled64_def split: option.splits del: step64.simps)
qed (simp_all add: clickReset_fields)

lemma route_run64: "route (run64 es s) = route s"
  by (induction es arbitrary: s) (simp_all add: route_step64)

lemma step64_stopped_zeroed:
  assumes "\<not> playing s \<longrightarrow> zeroed s"
  shows "\<not> playing (step64 e s) \<longrightarrow> zeroed (step64 e s)"
proof (rule step64_cases [where P = "\<lambda>x. \<not> playing x \<longrightarrow> zeroed x"])
  fix t t' assume "playing s" "animationPending s" "currentIndex s + 1 < length (route s)"
  then show "\<not> playing (step64 (Frame t t') s) \<longrightarrow> zeroed (step64 (Frame t t') s)"
    by (simp add: step64_frame_running sampled64_def split: option.splits del: step64.simps)
qed (use assms in \<open>auto simp add: zeroed_def clickReset_fields\<close>)

lemma run64_stopped_zeroed:
  "\<not> playing s \<longrightarrow> zeroed s \<Longrightarrow> \<not> playing (run64 es s) \<longrightarrow> zeroed (run64 es s)"
  by (induction es arbitrary: s) (simp_all add: step64_stopped_zeroed del: step64.simps)

text \<open>The distance a frame leaves, whatever the state it starts in.\<close>

lemma distance_step64_frame:
  "distanceTravelled (step64 (Frame t t') s) =
     (if animationPending s \<and> playing s \<and> route s \<noteq> []
      then if currentIndex s + 1 < length (route s)
           then case lastPositionRef s of
                  None \<Rightarrow> distanceTravelled s
                | Some p \<Rightarrow>
                    add64 (distanceTravelled s)
                      (haversineDistance64 (fst p) (snd p)
                         (fst (position64 t s)) (snd (position64 t s)))
           else Fin 0
      else distanceTravelled s)"
proof (cases "animationPending s \<and> playing s \<and> route s \<noteq> []")
  case True
  show ?thesis
  proof (cases "currentIndex s + 1 < length (route s)")
    case next_exists: True
    show ?thesis
      unfolding step64_frame_running [OF conjunct1 [OF conjunct2 [OF True]] conjunct1 [OF True]
          next_exists]
      using True next_exists by (simp add: sampled64_def split: option.splits)
  next
    case False
    show ?thesis
      unfolding step64_frame_terminal [OF conjunct1 [OF conjunct2 [OF True]] conjunct1 [OF True]
          conjunct2 [OF conjunct2 [OF True]] False]
      using True False by simp
  qed
next
  case idle: False
  show ?thesis
  proof (cases "animationPending s")
    case True
    then have i: "\<not> playing s \<or> route s = []" using idle by simp
    show ?thesis unfolding step64_frame_idle [OF i] using idle by auto
  next
    case False
    then show ?thesis by simp
  qed
qed

lemma lastPosition_step64_frame:
  "lastPositionRef (step64 (Frame t t') s) =
     (if animationPending s \<and> playing s \<and> route s \<noteq> []
      then if currentIndex s + 1 < length (route s) then Some (position64 t s) else None
      else lastPositionRef s)"
proof (cases "animationPending s \<and> playing s \<and> route s \<noteq> []")
  case True
  show ?thesis
  proof (cases "currentIndex s + 1 < length (route s)")
    case next_exists: True
    show ?thesis
      unfolding step64_frame_running [OF conjunct1 [OF conjunct2 [OF True]] conjunct1 [OF True]
          next_exists]
      using True next_exists by (simp add: sampled64_def split: option.splits)
  next
    case False
    show ?thesis
      unfolding step64_frame_terminal [OF conjunct1 [OF conjunct2 [OF True]] conjunct1 [OF True]
          conjunct2 [OF conjunct2 [OF True]] False]
      using True False by simp
  qed
next
  case idle: False
  show ?thesis
  proof (cases "animationPending s")
    case True
    then have i: "\<not> playing s \<or> route s = []" using idle by simp
    show ?thesis unfolding step64_frame_idle [OF i] using idle by auto
  next
    case False
    then show ?thesis by simp
  qed
qed

text \<open>The first frame of a session adds nothing to the distance.\<close>

lemma first_frame64_distance:
  assumes "\<not> playing s" and "zeroed s"
  shows "distanceTravelled (step64 (Frame t t') (step64 ClickPlayPause s)) = distanceTravelled s"
proof (cases "route s = []")
  case True
  then show ?thesis using assms by (simp add: zeroed_def)
next
  case False
  define s1 where "s1 = s\<lparr>playing := True, startTimeRef := None, animationPending := True\<rparr>"
  have s1: "step64 ClickPlayPause s = s1"
    using False assms(1) by (simp add: s1_def clickPlayPause_play)
  have f: "lastPositionRef s1 = None" "distanceTravelled s1 = Fin 0" "distanceTravelled s = Fin 0"
    using assms(2) by (simp_all add: s1_def zeroed_def)
  show ?thesis
    unfolding s1 distance_step64_frame using f by simp
qed

section \<open>The distance is a double that does not decrease\<close>

text \<open>A value that one rounding leaves alone: a double, an infinity or \<open>NaN\<close>.\<close>

lemma r64_zero: "r64 (Fin 0) = Fin 0"
  by (simp add: r64_def fl_zero)

lemma add64_rounded: "r64 (add64 x y) = add64 x y"
  by (simp add: add64_def r64_idem)

lemma step64_distance_rounded:
  assumes "r64 (distanceTravelled s) = distanceTravelled s"
  shows "r64 (distanceTravelled (step64 e s)) = distanceTravelled (step64 e s)"
proof (rule step64_cases [where P = "\<lambda>x. r64 (distanceTravelled x) = distanceTravelled x"])
  fix t t'
  show "r64 (distanceTravelled (step64 (Frame t t') s)) = distanceTravelled (step64 (Frame t t') s)"
    unfolding distance_step64_frame
    using assms by (simp add: add64_rounded r64_zero split: option.splits)
qed (use assms in \<open>simp_all add: clickReset_fields r64_zero\<close>)

lemma run64_distance_rounded:
  "r64 (distanceTravelled s) = distanceTravelled s \<Longrightarrow>
   r64 (distanceTravelled (run64 es s)) = distanceTravelled (run64 es s)"
  by (induction es arbitrary: s) (simp_all add: step64_distance_rounded del: step64.simps)

lemma loaded_distance_rounded: "r64 (distanceTravelled (loaded r)) = distanceTravelled (loaded r)"
  by (simp add: loaded_eq mounted_def r64_def fl_zero)

text \<open>
  The distance between two positions is \<open>NaN\<close> or a number that is at least 0, never an
  infinity.
\<close>

lemma atan2_quadrant:
  assumes "0 \<le> y" and "0 \<le> x"
  shows "0 \<le> atan2 y x \<and> atan2 y x \<le> 2"
proof -
  have "arctan (y / x) < pi / 2" by (rule arctan_ubound)
  moreover have "pi / 2 \<le> 2" using pi_less_4 by simp
  ultimately show ?thesis
    using assms atan2_nonneg [OF assms] pi_gt_zero by (auto simp add: atan2_def)
qed

lemma fl_angle:
  assumes "0 \<le> v" and "v \<le> 2"
  shows "\<exists>w. fl v = Fin w \<and> 0 \<le> w \<and> w \<le> 5"
proof -
  have "fl v = Fin (rnd v)" using assms by (intro small_finite) simp
  moreover have "0 \<le> rnd v" using assms(1) by (rule rnd_nonneg)
  moreover have "rnd v \<le> 5" using rnd_bound [of v] assms by simp
  ultimately show ?thesis by blast
qed

lemma sqrt64_range: "sqrt64 x = NaN \<or> sqrt64 x = PInf \<or> (\<exists>r. sqrt64 x = Fin r \<and> 0 \<le> r)"
proof (cases x)
  case (Fin a)
  show ?thesis
  proof (cases "a < 0")
    case True
    then show ?thesis using Fin by (simp add: sqrt64_def r64_def)
  next
    case False
    then have "0 \<le> sqrt a" by simp
    then show ?thesis using Fin False fl_nonneg [of "sqrt a"] by (simp add: sqrt64_def r64_def)
  qed
qed (simp_all add: sqrt64_def r64_def)

lemma atan2_64_range:
  assumes "y = PInf \<or> (\<exists>r. y = Fin r \<and> 0 \<le> r)" and "x = PInf \<or> (\<exists>r. x = Fin r \<and> 0 \<le> r)"
  shows "\<exists>w. atan2_64 y x = Fin w \<and> 0 \<le> w \<and> w \<le> 5"
proof -
  have q: "0 \<le> pi / 4" "pi / 4 \<le> 2" "0 \<le> pi / 2" "pi / 2 \<le> 2"
    using pi_gt_zero pi_less_4 by simp_all
  from assms show ?thesis
  proof (elim disjE exE conjE)
    assume "y = PInf" "x = PInf"
    then show ?thesis using fl_angle [OF q(1,2)] by (simp add: atan2_64_def r64_def)
  next
    fix r assume "y = PInf" "x = Fin r"
    then show ?thesis using fl_angle [OF q(3,4)] by (simp add: atan2_64_def r64_def)
  next
    fix r assume "y = Fin r" "x = PInf"
    then show ?thesis by (simp add: atan2_64_def r64_def fl_zero)
  next
    fix r q assume "y = Fin r" "0 \<le> r" "x = Fin q" "0 \<le> q"
    then show ?thesis
      using atan2_quadrant [of r q] fl_angle [of "atan2 r q"] by (simp add: atan2_64_def r64_def)
  qed
qed

lemma scale64_range:
  assumes "0 \<le> w" and "w \<le> 5"
  shows "\<exists>h. mul64 (Fin 6371000) (mul64 (Fin 2) (Fin w)) = Fin h \<and> 0 \<le> h"
proof -
  have a: "fl (2 * w) = Fin (rnd (2 * w))" using assms by (intro small_finite) simp
  have b: "0 \<le> rnd (2 * w)" using assms(1) by (intro rnd_nonneg) simp
  have c: "rnd (2 * w) \<le> 21" using rnd_bound [of "2 * w"] assms by simp
  have "\<bar>6371000 * rnd (2 * w)\<bar> \<le> 6371000 * 21" using b c by simp
  moreover have "(6371000 * 21 :: real) \<le> 2 ^ 1022" by simp
  ultimately have "\<bar>6371000 * rnd (2 * w)\<bar> \<le> 2 ^ 1022" by linarith
  then have d: "fl (6371000 * rnd (2 * w)) = Fin (rnd (6371000 * rnd (2 * w)))" by (rule fl_Fin)
  have "0 \<le> rnd (6371000 * rnd (2 * w))" using b by (intro rnd_nonneg) simp
  then show ?thesis using a d by (simp add: mul64_def r64_def)
qed

lemma haversineDistance64_range:
  "haversineDistance64 lat1 lon1 lat2 lon2 = NaN \<or>
   (\<exists>h. haversineDistance64 lat1 lon1 lat2 lon2 = Fin h \<and> 0 \<le> h)"
proof -
  define a where "a = add64
       (mul64 (sin64 (div64 (toRad64 (sub64 lat2 lat1)) (Fin 2)))
              (sin64 (div64 (toRad64 (sub64 lat2 lat1)) (Fin 2))))
       (mul64 (mul64 (mul64 (cos64 (toRad64 lat1)) (cos64 (toRad64 lat2)))
                (sin64 (div64 (toRad64 (sub64 lon2 lon1)) (Fin 2))))
              (sin64 (div64 (toRad64 (sub64 lon2 lon1)) (Fin 2))))"
  have h: "haversineDistance64 lat1 lon1 lat2 lon2 =
      mul64 (Fin 6371000) (mul64 (Fin 2) (atan2_64 (sqrt64 a) (sqrt64 (sub64 (Fin 1) a))))"
    by (simp add: haversineDistance64_def Let_def a_def)
  show ?thesis
  proof (cases "sqrt64 a = NaN \<or> sqrt64 (sub64 (Fin 1) a) = NaN")
    case True
    then show ?thesis unfolding h by (auto simp add: atan2_64_NaN mul64_NaN)
  next
    case False
    then have "sqrt64 a = PInf \<or> (\<exists>r. sqrt64 a = Fin r \<and> 0 \<le> r)"
      "sqrt64 (sub64 (Fin 1) a) = PInf \<or> (\<exists>r. sqrt64 (sub64 (Fin 1) a) = Fin r \<and> 0 \<le> r)"
      using sqrt64_range [of a] sqrt64_range [of "sub64 (Fin 1) a"] by auto
    then obtain w where w: "atan2_64 (sqrt64 a) (sqrt64 (sub64 (Fin 1) a)) = Fin w" "0 \<le> w" "w \<le> 5"
      using atan2_64_range by blast
    show ?thesis unfolding h w(1) using scale64_range [OF w(2,3)] by simp
  qed
qed

lemma add64_not_below:
  assumes "r64 d = d" and "d \<noteq> NaN" and "0 \<le> h"
  shows "js_ge (add64 d (Fin h)) d"
proof (cases d)
  case (Fin x)
  then have "isDouble x" using assms(1) by (simp add: r64_def isDouble_def)
  then have "js_ge (fl (x + h)) (Fin x)" using assms(3) by (intro fl_above) simp_all
  then show ?thesis using Fin by (simp add: add64_def r64_def)
qed (use assms in \<open>simp_all add: add64_def r64_def\<close>)

lemma add64_NaN_cases:
  "add64 d (Fin h) = NaN \<Longrightarrow> d = NaN"
  by (cases d) (simp_all add: add64_def r64_def fl_def split: if_splits)

section \<open>The two-waypoint session in binary64\<close>

lemma fl_int:
  fixes k :: int
  assumes "\<bar>k\<bar> < 2 ^ 53"
  shows "fl (real_of_int k) = Fin (real_of_int k)"
proof -
  have "rnd (real_of_int k * 2 powr real_of_int 0) = real_of_int k * 2 powr real_of_int 0"
    using assms by (intro rnd_representable) simp_all
  then have r: "rnd (real_of_int k) = real_of_int k" by simp
  have "real_of_int \<bar>k\<bar> \<le> real_of_int (2 ^ 53)" using assms by (intro of_int_le_iff [THEN iffD2]) simp
  moreover have "real_of_int (2 ^ 53) \<le> 2 ^ 1022" by simp
  ultimately have "\<bar>real_of_int k\<bar> \<le> 2 ^ 1022" by simp
  then show ?thesis using r by (simp add: fl_Fin)
qed

lemma fl_1000: "fl 1000 = Fin 1000"
  using fl_int [of 1000] by simp

lemma fl_180: "fl 180 = Fin 180"
  using fl_int [of 180] by simp

lemma fl_100000001000: "fl 100000001000 = Fin 100000001000"
  using fl_int [of 100000001000] by simp

lemma fl_100000001: "fl 100000001 = Fin 100000001"
  using fl_int [of 100000001] by simp

lemma fl_6371000: "fl 6371000 = Fin 6371000"
  using fl_int [of 6371000] by simp

lemmas animate64_defs =
  frame64_def animate64_def startTime_def elapsed64_def timeDiff64_def segmentElapsed64_def
  progress64_def interpolate64_def position64_def secDiff64_def getTime_def js_sub_def

lemmas op64_defs = add64_def sub64_def mul64_def div64_def r64_def

lemma pairD1_eq:
  "pairD1 =
     \<lparr>route = pairRoute, currentIndex = 0, playing = True, elapsedTime = Fin 0,
      distanceTravelled = Fin 0, speed = Fin 0, animationPending = True,
      startTimeRef = None, lastTimestampRef = None, lastPositionRef = None,
      progressRef = Fin 0\<rparr>"
  by (simp add: pairD1_def loaded_eq mounted_def clickPlayPause_play pairRoute_def)

lemma pairD2_eq:
  "pairD2 =
     \<lparr>route = pairRoute, currentIndex = 0, playing = True, elapsedTime = Fin 0,
      distanceTravelled = Fin 0, speed = Fin 0, animationPending = True,
      startTimeRef = Some 1800000000000, lastTimestampRef = Some 1700000000000,
      lastPositionRef = Some (Fin 0, Fin 0), progressRef = Fin 0\<rparr>"
  unfolding pairD2_def pairD1_eq
  by (simp add: animate64_defs op64_defs pairRoute_def effect_defs fl_zero fl_one fl_1000 fl_180)

lemma pairD2_progress: "progress64 1800000001000 pairD2 = Fin 1"
  by (simp add: pairD2_eq animate64_defs op64_defs pairRoute_def fl_zero fl_one fl_1000)

lemma pairD2_position: "position64 1800000001000 pairD2 = (Fin 0, Fin 180)"
  unfolding position64_def pairD2_progress
  by (simp add: pairD2_eq interpolate64_def js_sub_def op64_defs pairRoute_def fl_zero fl_180)

lemma pairD3_fields:
  "currentIndex pairD3 = 1 \<and> playing pairD3 \<and> animationPending pairD3 \<and>
   route pairD3 = pairRoute \<and> lastPositionRef pairD3 = Some (Fin 0, Fin 180) \<and>
   distanceTravelled pairD3 =
     add64 (Fin 0) (haversineDistance64 (Fin 0) (Fin 0) (Fin 0) (Fin 180))"
proof -
  have h: "playing pairD2" "animationPending pairD2"
    "currentIndex pairD2 + 1 < length (route pairD2)"
    by (simp_all add: pairD2_eq pairRoute_def)
  have t: "timestamp (route pairD2 ! currentIndex pairD2) = Some 1700000000000"
    "lastPositionRef pairD2 = Some (Fin 0, Fin 0)" "distanceTravelled pairD2 = Fin 0"
    "currentIndex pairD2 = 0"
    by (simp_all add: pairD2_eq pairRoute_def)
  have r: "route pairD2 = pairRoute" by (simp add: pairD2_eq)
  show ?thesis
    unfolding pairD3_def step64_frame_running [OF h] t(1)
    by (simp add: t(2,3,4) r h pairD2_progress pairD2_position sampled64_def)
qed

lemma pairD4_eq:
  "pairD4 =
     pairD3\<lparr>playing := False, currentIndex := 0, elapsedTime := Fin 0,
       distanceTravelled := Fin 0, speed := Fin 0, progressRef := Fin 0,
       lastTimestampRef := None, lastPositionRef := None, animationPending := False\<rparr>"
  unfolding pairD4_def
  by (rule step64_frame_terminal) (simp_all add: pairD3_fields pairRoute_def)

text \<open>Half a turn along the equator: \<open>a\<close> is 1 and the angle is the double next to pi.\<close>

lemma toRad64_zero: "toRad64 (Fin 0) = Fin 0"
  by (simp add: toRad64_def mul64_def div64_def r64_def fl_zero)

lemma sub64_zero_zero: "sub64 (Fin 0) (Fin 0) = Fin 0"
  by (simp add: sub64_def js_sub_def r64_def fl_zero)

lemma half_zero: "div64 (Fin 0) (Fin 2) = Fin 0"
  by (simp add: div64_def r64_def fl_zero)

lemma sin64_zero: "sin64 (Fin 0) = Fin 0"
  by (simp add: sin64_def r64_def fl_zero)

lemma cos64_zero: "cos64 (Fin 0) = Fin 1"
  by (simp add: cos64_def r64_def fl_one)

lemma mul64_zero_zero: "mul64 (Fin 0) (Fin 0) = Fin 0"
  by (simp add: mul64_def r64_def fl_zero)

lemma mul64_one_one: "mul64 (Fin 1) (Fin 1) = Fin 1"
  by (simp add: mul64_def r64_def fl_one)

lemma add64_zero_one: "add64 (Fin 0) (Fin 1) = Fin 1"
  by (simp add: add64_def r64_def fl_one)

lemma sub64_one_one: "sub64 (Fin 1) (Fin 1) = Fin 0"
  by (simp add: sub64_def js_sub_def r64_def fl_zero)

lemma sqrt64_one: "sqrt64 (Fin 1) = Fin 1"
  by (simp add: sqrt64_def r64_def fl_one)

lemma sqrt64_zero: "sqrt64 (Fin 0) = Fin 0"
  by (simp add: sqrt64_def r64_def fl_zero)

lemma atan2_64_up: "atan2_64 (Fin 1) (Fin 0) = fl (pi / 2)"
  by (simp add: atan2_64_def r64_def atan2_def)

lemma half_turn_formula:
  "haversineDistance64 (Fin 0) (Fin 0) (Fin 0) (Fin 180) =
     mul64 (Fin 6371000) (mul64 (Fin 2) (fl (pi / 2)))"
  unfolding haversineDistance64_def Let_def toRad64_dlon sub64_zero_zero toRad64_zero half_zero
    step_half_dlon sin64_zero cos64_zero sin64_half_pi mul64_zero_zero mul64_one_one
    add64_zero_one sub64_one_one sqrt64_one sqrt64_zero atan2_64_up ..

lemma half_turn:
  "\<exists>h. haversineDistance64 (Fin 0) (Fin 0) (Fin 0) (Fin 180) = Fin h \<and> 6371000 \<le> h"
proof -
  have p: "1 \<le> pi / 2" "pi / 2 \<le> 2" using pi_ge_two pi_less_4 by simp_all
  define w where "w = rnd (pi / 2)"
  have a: "fl (pi / 2) = Fin w" using p unfolding w_def by (intro small_finite) simp
  have "rnd 1 \<le> rnd (pi / 2)" using p(1) by (rule rnd_mono)
  then have w1: "1 \<le> w" by (simp add: w_def rnd_one)
  have w5: "w \<le> 5" using rnd_bound [of "pi / 2"] p by (simp add: w_def)
  define z where "z = rnd (2 * w)"
  have b: "fl (2 * w) = Fin z" using w1 w5 unfolding z_def by (intro small_finite) simp
  have "rnd 1 \<le> rnd (2 * w)" using w1 by (intro rnd_mono) simp
  then have z1: "1 \<le> z" by (simp add: z_def rnd_one)
  have z21: "z \<le> 21" using rnd_bound [of "2 * w"] w1 w5 by (simp add: z_def)
  have "\<bar>6371000 * z\<bar> \<le> 6371000 * 21" using z1 z21 by simp
  moreover have "(6371000 * 21 :: real) \<le> 2 ^ 1022" by simp
  ultimately have "\<bar>6371000 * z\<bar> \<le> 2 ^ 1022" by linarith
  then have c: "fl (6371000 * z) = Fin (rnd (6371000 * z))" by (rule fl_Fin)
  have "rnd 6371000 = 6371000" using fl_6371000 by (simp add: fl_def split: if_splits)
  moreover have "rnd 6371000 \<le> rnd (6371000 * z)" using z1 by (intro rnd_mono) simp
  ultimately have "6371000 \<le> rnd (6371000 * z)" by simp
  then show ?thesis
    unfolding half_turn_formula using a b c by (simp add: mul64_def r64_def)
qed

lemma pairD3_distance:
  "\<exists>h. distanceTravelled pairD3 = Fin h \<and> 6371000 \<le> h"
proof -
  obtain h where h: "haversineDistance64 (Fin 0) (Fin 0) (Fin 0) (Fin 180) = Fin h" "6371000 \<le> h"
    using half_turn by blast
  have "r64 (haversineDistance64 (Fin 0) (Fin 0) (Fin 0) (Fin 180)) =
      haversineDistance64 (Fin 0) (Fin 0) (Fin 0) (Fin 180)"
    unfolding half_turn_formula mul64_def by (rule r64_idem)
  then have "fl h = Fin h" using h(1) by (simp add: r64_def)
  then have "add64 (Fin 0) (Fin h) = Fin h" by (simp add: add64_def r64_def)
  then show ?thesis using h pairD3_fields by simp
qed

section \<open>The session between two nearly opposite waypoints\<close>

lemma anti_times: "timestamp antiA = Some 1700000000000" "timestamp antiB = Some 1700000001000"
  by (simp_all add: antiA_def antiB_def)

lemma anti_lat_double: "isDouble (3968093484178473 / 2 ^ 46)"
proof -
  have "fl (3968093484178473 / 2 ^ 46) = Fin (real_of_int 7936186968356946 / 2 ^ 47)"
    by (rule fl_eqI) simp_all
  then show ?thesis by (simp add: isDouble_def)
qed

lemma anti_lerp_lat:
  "add64 (Fin (- (3968093484178473 / 2 ^ 46)))
     (mul64 (sub64 (Fin (3968093484178473 / 2 ^ 46)) (Fin (- (3968093484178473 / 2 ^ 46))))
        (Fin 1)) =
   Fin (3968093484178473 / 2 ^ 46)"
proof -
  have "fl (3968093484178473 / 2 ^ 45 * 1) = Fin (real_of_int 7936186968356946 / 2 ^ 46)"
    by (rule fl_eqI) simp_all
  then have m: "mul64 (Fin (3968093484178473 / 2 ^ 45)) (Fin 1) = Fin (3968093484178473 / 2 ^ 45)"
    by (simp add: mul64_def r64_def)
  have "fl (- (3968093484178473 / 2 ^ 46) + 3968093484178473 / 2 ^ 45) =
      Fin (real_of_int 7936186968356946 / 2 ^ 47)"
    by (rule fl_eqI) simp_all
  then have a: "add64 (Fin (- (3968093484178473 / 2 ^ 46))) (Fin (3968093484178473 / 2 ^ 45)) =
      Fin (3968093484178473 / 2 ^ 46)"
    by (simp add: add64_def r64_def)
  show ?thesis unfolding step_sub_lat m a ..
qed

lemma anti_start: "interpolate64 antiA antiB (Fin 0) = (Fin (latitude antiA), Fin (longitude antiA))"
proof -
  have "isDouble (- (3968093484178473 / 2 ^ 46))"
    using anti_lat_double by (simp add: isDouble_def fl_minus)
  then have "isDouble (latitude antiA)" by (simp add: antiA_def)
  moreover have "isDouble (longitude antiA)" by (simp add: antiA_def isDouble_def fl_zero)
  moreover have "\<bar>latitude antiA\<bar> \<le> 180" "\<bar>longitude antiA\<bar> \<le> 180"
    "\<bar>latitude antiB\<bar> \<le> 180" "\<bar>longitude antiB\<bar> \<le> 180"
    by (simp_all add: antiA_def antiB_def)
  ultimately show ?thesis by (simp add: interpolate64_def lerp64_zero)
qed

lemma anti_end: "interpolate64 antiA antiB (Fin 1) = (Fin (latitude antiB), Fin (longitude antiB))"
proof -
  have "add64 (Fin (latitude antiA))
      (mul64 (sub64 (Fin (latitude antiB)) (Fin (latitude antiA))) (Fin 1)) = Fin (latitude antiB)"
    using anti_lerp_lat by (simp add: antiA_def antiB_def)
  moreover have "add64 (Fin (longitude antiA))
      (mul64 (sub64 (Fin (longitude antiB)) (Fin (longitude antiA))) (Fin 1)) =
      Fin (longitude antiB)"
    by (simp add: antiA_def antiB_def op64_defs js_sub_def fl_180)
  ultimately show ?thesis by (simp add: interpolate64_def)
qed

lemma anti_distance:
  "haversineDistance64 (Fin (latitude antiA)) (Fin (longitude antiA))
     (Fin (latitude antiB)) (Fin (longitude antiB)) = NaN"
  using haversineDistance64_antipodal by (simp add: antiA_def antiB_def)

lemma antiD1_eq:
  "antiD1 =
     \<lparr>route = antiRoute, currentIndex = 0, playing = True, elapsedTime = Fin 0,
      distanceTravelled = Fin 0, speed = Fin 0, animationPending = True,
      startTimeRef = None, lastTimestampRef = None, lastPositionRef = None,
      progressRef = Fin 0\<rparr>"
  by (simp add: antiD1_def loaded_eq mounted_def clickPlayPause_play antiRoute_def)

lemmas progress64_defs =
  startTime_def elapsed64_def timeDiff64_def segmentElapsed64_def progress64_def getTime_def
  js_sub_def

lemma antiD1_progress: "progress64 1800000000000 antiD1 = Fin 0"
  by (simp add: antiD1_eq progress64_defs op64_defs antiRoute_def anti_times fl_zero fl_one fl_1000)

lemma antiD1_position:
  "position64 1800000000000 antiD1 = (Fin (latitude antiA), Fin (longitude antiA))"
  unfolding position64_def antiD1_progress
  by (simp add: antiD1_eq antiRoute_def anti_start)

lemma antiD2_fields:
  "currentIndex antiD2 = 0 \<and> playing antiD2 \<and> animationPending antiD2 \<and>
   route antiD2 = antiRoute \<and> startTimeRef antiD2 = Some 1800000000000 \<and>
   lastPositionRef antiD2 = Some (Fin (latitude antiA), Fin (longitude antiA)) \<and>
   distanceTravelled antiD2 = Fin 0"
proof -
  have h: "playing antiD1" "animationPending antiD1"
    "currentIndex antiD1 + 1 < length (route antiD1)"
    by (simp_all add: antiD1_eq antiRoute_def)
  have t: "timestamp (route antiD1 ! currentIndex antiD1) = Some 1700000000000"
    by (simp add: antiD1_eq antiRoute_def anti_times)
  have f: "lastPositionRef antiD1 = None" "distanceTravelled antiD1 = Fin 0"
    "currentIndex antiD1 = 0" "route antiD1 = antiRoute" "startTimeRef antiD1 = None"
    by (simp_all add: antiD1_eq)
  show ?thesis
    unfolding antiD2_def step64_frame_running [OF h] t
    by (simp add: f h antiD1_progress antiD1_position sampled64_def startTime_def)
qed

lemma antiD2_progress: "progress64 1800000001000 antiD2 = Fin 1"
  using antiD2_fields
  by (simp add: progress64_defs op64_defs antiRoute_def anti_times fl_zero fl_one fl_1000)

lemma antiD2_position:
  "position64 1800000001000 antiD2 = (Fin (latitude antiB), Fin (longitude antiB))"
  unfolding position64_def antiD2_progress
  using antiD2_fields by (simp add: antiRoute_def anti_end)

lemma antiD3_distance: "distanceTravelled antiD3 = NaN"
proof -
  have h: "animationPending antiD2 \<and> playing antiD2 \<and> route antiD2 \<noteq> []"
    "currentIndex antiD2 + 1 < length (route antiD2)"
    using antiD2_fields by (simp_all add: antiRoute_def)
  show ?thesis
    unfolding antiD3_def distance_step64_frame
    using h antiD2_fields
    by (simp add: antiD2_position anti_distance add64_def r64_def)
qed

section \<open>Claims\<close>

text \<open>
  C1 (as stated: pausing keeps index, progress, elapsed time, distance and speed). In the
  sample session, pausing after the second frame changes four of them.
\<close>

theorem pause_keeps_values_counterexample:
  "playing demo3 \<and>
   currentIndex demo3 = 1 \<and> currentIndex (step ClickPlayPause demo3) = 0 \<and>
   elapsedTime demo3 = Fin 1 \<and> elapsedTime (step ClickPlayPause demo3) = Fin 0 \<and>
   distanceTravelled demo3 = Fin (6371000 * pi) \<and>
   distanceTravelled (step ClickPlayPause demo3) = Fin 0 \<and>
   speed demo3 = Fin (6371000 * pi / 100000001) \<and>
   speed (step ClickPlayPause demo3) = Fin 0 \<and>
   distanceTravelled (step ClickPlayPause demo3) \<noteq> distanceTravelled demo3"
  by (simp add: demo3_eq clickPlayPause_pause demoRoute_def)

text \<open>
  C1, amended. Pausing a playing component stops it, and the effect for the stopped
  component then puts index, progress, elapsed time, distance and speed back to 0, keeping
  the route: the resulting state is the one the Reset button gives.
\<close>

theorem pause_resets:
  assumes "playing s"
  shows "\<not> playing (clickPlayPause s) \<and> currentIndex (clickPlayPause s) = 0 \<and>
         progressRef (clickPlayPause s) = Fin 0 \<and> elapsedTime (clickPlayPause s) = Fin 0 \<and>
         distanceTravelled (clickPlayPause s) = Fin 0 \<and> speed (clickPlayPause s) = Fin 0 \<and>
         route (clickPlayPause s) = route s \<and> clickPlayPause s = clickReset s"
  using assms by (simp add: clickPlayPause_pause clickReset_playing)

theorem pause_resets_witness:
  "playing demo3 \<and> \<not> playing (clickPlayPause demo3) \<and> currentIndex (clickPlayPause demo3) = 0 \<and>
   progressRef (clickPlayPause demo3) = Fin 0 \<and> elapsedTime (clickPlayPause demo3) = Fin 0 \<and>
   distanceTravelled (clickPlayPause demo3) = Fin 0 \<and> speed (clickPlayPause demo3) = Fin 0 \<and>
   route (clickPlayPause demo3) = demoRoute \<and> clickPlayPause demo3 = clickReset demo3"
proof -
  have p: "playing demo3" by (simp add: demo3_eq)
  have r: "route demo3 = demoRoute" by (simp add: demo3_eq)
  show ?thesis using pause_resets [OF p] p r by metis
qed

text \<open>
  C2 (as stated: after completion the index is N - 1, playing is false and the telemetry is
  kept). On the two-waypoint route, the frame that completes the segment leaves the index at
  1 with the component still playing; the next frame stops it, and the index is then 0 and
  the telemetry zeroed.
\<close>

theorem completion_counterexample:
  "length pairRoute = 2 \<and>
   currentIndex pair3 = 1 \<and> playing pair3 \<and>
   distanceTravelled pair3 = Fin (6371000 * pi) \<and> elapsedTime pair3 = Fin 1 \<and>
   \<not> playing pair4 \<and> currentIndex pair4 = 0 \<and> currentIndex pair4 \<noteq> length pairRoute - 1 \<and>
   distanceTravelled pair4 = Fin 0 \<and> elapsedTime pair4 = Fin 0 \<and> speed pair4 = Fin 0"
  by (simp add: pair3_eq pair4_eq pairRoute_def)

text \<open>
  C2, amended. For a route of N waypoints, N at least 2: the frame on which the progress
  of the last segment reaches 1 puts the index to N - 1 and leaves the component playing;
  the frame after it finds no next waypoint, and its callback only sets \<open>playing\<close> to
  false; the effect for the stopped component, run by the commit that follows, then puts the
  index back to 0 and zeroes elapsed time, distance and speed.
\<close>

theorem completion_resets:
  assumes "playing s" and "animationPending s"
    and "currentIndex s + 2 = length (route s)"
    and "timestamp (route s ! currentIndex s) = Some ms"
    and "js_ge (progress t s) (Fin 1)"
  shows "currentIndex (step (Frame t t') s) = length (route s) - 1 \<and>
         playing (step (Frame t t') s) \<and>
         animate u u' ((step (Frame t t') s)\<lparr>animationPending := False\<rparr>) =
           (None, (step (Frame t t') s)\<lparr>animationPending := False, playing := False\<rparr>) \<and>
         \<not> playing (step (Frame u u') (step (Frame t t') s)) \<and>
         currentIndex (step (Frame u u') (step (Frame t t') s)) = 0 \<and>
         elapsedTime (step (Frame u u') (step (Frame t t') s)) = Fin 0 \<and>
         distanceTravelled (step (Frame u u') (step (Frame t t') s)) = Fin 0 \<and>
         speed (step (Frame u u') (step (Frame t t') s)) = Fin 0"
proof -
  define s1 where "s1 = step (Frame t t') s"
  have nx: "currentIndex s + 1 < length (route s)" using assms(3) by simp
  have s1: "s1 = (sampled t s)\<lparr>lastTimestampRef := Some ms, currentIndex := currentIndex s + 1,
                 progressRef := Fin 0, startTimeRef := None, animationPending := True\<rparr>"
    unfolding s1_def step_frame_running [OF assms(1,2) nx] using assms(4,5) by simp
  have f1: "currentIndex s1 = length (route s) - 1" "playing s1" "animationPending s1"
    "route s1 = route s"
    using s1 assms(1,3) by (simp_all add: sampled_def)
  have t: "\<not> currentIndex s1 + 1 < length (route s1)" using f1 assms(3) by simp
  have "route s1 \<noteq> []" using f1 assms(3) by auto
  then have s2: "step (Frame u u') s1 =
     s1\<lparr>playing := False, currentIndex := 0, elapsedTime := Fin 0, distanceTravelled := Fin 0,
        speed := Fin 0, progressRef := Fin 0, lastTimestampRef := None,
        lastPositionRef := None, animationPending := False\<rparr>"
    using f1(2,3) t by (simp add: frame_terminal)
  have cb: "animate u u' (s1\<lparr>animationPending := False\<rparr>) =
      (None, s1\<lparr>animationPending := False, playing := False\<rparr>)"
    using f1(2) t \<open>route s1 \<noteq> []\<close> by (simp add: animate_def)
  show ?thesis
    unfolding s1_def [symmetric] s2 using f1 cb by simp
qed

theorem completion_resets_witness:
  "playing pair2 \<and> animationPending pair2 \<and> currentIndex pair2 + 2 = length (route pair2) \<and>
   timestamp (route pair2 ! currentIndex pair2) = Some 1700000000000 \<and>
   js_ge (progress 1800000001000 pair2) (Fin 1) \<and>
   currentIndex pair3 = length (route pair2) - 1 \<and> playing pair3 \<and>
   \<not> playing pair4 \<and> currentIndex pair4 = 0 \<and> elapsedTime pair4 = Fin 0 \<and>
   distanceTravelled pair4 = Fin 0 \<and> speed pair4 = Fin 0"
proof -
  have h: "playing pair2" "animationPending pair2" "currentIndex pair2 + 2 = length (route pair2)"
    "timestamp (route pair2 ! currentIndex pair2) = Some 1700000000000"
    "js_ge (progress 1800000001000 pair2) (Fin 1)"
    by (simp_all add: pair2_eq pairRoute_def animate_defs)
  show ?thesis
    using completion_resets [OF h, of 1800000001000 1800000001016 1800000001016] h
    by (simp add: pair3_def pair4_def)
qed

text \<open>
  C3 (as stated: in every reachable state the progress lies in [0,1]). In the sample
  session, the first frame after the first segment boundary leaves the progress at -1.
\<close>

theorem progress_range_counterexample:
  "run [ClickPlayPause, Frame 1800000000000 1800000000000, Frame 1800000001000 1800000001000,
        Frame 1800000001016 1800000001016] (loaded demoRoute) = demo4 \<and>
   progressRef demo4 = Fin (- 1) \<and> \<not> js_ge (progressRef demo4) (Fin 0)"
  using demo4_run demo4_fields by simp

text \<open>
  C3, amended. In every state reached from a fetched route by clicks and frames, the progress
  is never above 1 (only the upper side is clamped); and after every event that advances the
  current index the progress is 0.
\<close>

theorem progress_upper_bound:
  "\<not> js_gt (progressRef (run es (loaded r))) (Fin 1) \<and>
   (currentIndex (run es (loaded r)) < currentIndex (step e (run es (loaded r))) \<longrightarrow>
    progressRef (step e (run es (loaded r))) = Fin 0)"
  using run_progress_not_above [of "loaded r" es] step_advance_resets_progress [of "run es (loaded r)" e]
  by (simp add: loaded_progress del: step.simps)

theorem progress_upper_bound_witness:
  "currentIndex demo2 < currentIndex demo3 \<and> progressRef demo3 = Fin 0 \<and>
   \<not> js_gt (progressRef demo2) (Fin 1)"
proof -
  have lt: "currentIndex demo2 < currentIndex demo3" by (simp add: demo2_eq demo3_eq)
  show ?thesis
    using progress_upper_bound
      [of "[ClickPlayPause, Frame 1800000000000 1800000000000]" demoRoute
          "Frame 1800000001000 1800000001000"] lt
    unfolding demo2_run demo3_def [symmetric] by blast
qed

text \<open>
  C4 (as stated: a duration of 0 or less gives progress 1 at once, and two waypoints with one
  timestamp reach the terminal state on the first frame after play). With one timestamp, the
  first frame after play computes 0/0: the progress and the position are NaN and the index
  stays 0. With timestamps going backwards, one second after the first frame the progress
  is -1.
\<close>

theorem degenerate_segment_counterexample:
  "playing same1 \<and> startTimeRef same1 = None \<and>
   progress 1800000000000 same1 = NaN \<and>
   playing same2 \<and> currentIndex same2 = 0 \<and> progressRef same2 = NaN \<and>
   lastPositionRef same2 = Some (NaN, NaN) \<and>
   progress 1800000001000 back2 = Fin (- 1) \<and>
   playing back3 \<and> currentIndex back3 = 0 \<and> progressRef back3 = Fin (- 1)"
  using back3_fields
  by (simp add: same1_eq same2_eq back2_eq progress_def segmentElapsed_def timeDiff_def
      elapsed_def getTime_def js_sub_def startTime_def sameRoute_def backRoute_def)

text \<open>
  C4, amended. For a segment whose two timestamps are the same instant, the frame divides by
  zero: the progress is 1, and the index advances, when the clock has moved on since the
  start time; it is NaN, and the index stays, when the clock equals the start time, and
  \<open>-Infinity\<close> when the clock is behind it. The first frame after play, which finds the
  start time unset, is of the second kind: it leaves the component playing at the same
  index with NaN progress. No exception is thrown.
\<close>

theorem zero_duration_frame:
  assumes "playing s" and "animationPending s" and "currentIndex s + 1 < length (route s)"
    and "timestamp (route s ! currentIndex s) = Some ms"
    and "timestamp (route s ! (currentIndex s + 1)) = Some ms"
  shows "progress t s =
           (if startTime t s < t then Fin 1 else if startTime t s = t then NaN else NInf) \<and>
         currentIndex (step (Frame t t') s) =
           (if startTime t s < t then currentIndex s + 1 else currentIndex s) \<and>
         playing (step (Frame t t') s) \<and>
         fst (frame t t' s) = None \<and>
         (startTimeRef s = None \<longrightarrow>
            progressRef (step (Frame t t') s) = NaN \<and>
            currentIndex (step (Frame t t') s) = currentIndex s)"
proof -
  have e: "fst (frame t t' s) = None" using assms(4) by (simp add: frame_error)
  have p: "progress t s =
      (if startTime t s < t then Fin 1 else if startTime t s = t then NaN else NInf)"
    using assms(4,5) by (rule zero_duration_progress)
  have n: "startTimeRef s = None \<Longrightarrow> startTime t s = t" by (simp add: startTime_def)
  show ?thesis
    unfolding step_frame_running [OF assms(1,2,3)]
    using assms(1,4) p n e by (auto simp add: sampled_def)
qed

theorem zero_duration_frame_witness:
  "playing same1 \<and> animationPending same1 \<and> currentIndex same1 + 1 < length (route same1) \<and>
   timestamp (route same1 ! currentIndex same1) = Some 1700000000000 \<and>
   timestamp (route same1 ! (currentIndex same1 + 1)) = Some 1700000000000 \<and>
   startTimeRef same1 = None \<and>
   progress 1800000000000 same1 = NaN \<and> progressRef same2 = NaN \<and>
   currentIndex same2 = currentIndex same1 \<and> playing same2"
proof -
  have h: "playing same1" "animationPending same1" "currentIndex same1 + 1 < length (route same1)"
    "timestamp (route same1 ! currentIndex same1) = Some 1700000000000"
    "timestamp (route same1 ! (currentIndex same1 + 1)) = Some 1700000000000"
    by (simp_all add: same1_eq sameRoute_def)
  have n: "startTimeRef same1 = None" "startTime 1800000000000 same1 = 1800000000000"
    by (simp_all add: same1_eq startTime_def)
  show ?thesis
    using zero_duration_frame [OF h, of 1800000000000 1800000000000] h n
    unfolding same2_def [symmetric] by simp
qed

text \<open>
  C5 (as stated: for every route, the distance never decreases over the frames of a
  session). With two waypoints that share their timestamp, the first frame leaves a NaN
  position and the second frame makes the distance NaN, which is not at least the distance
  before. And the last frame of a session, the one that finds no next waypoint, puts the
  distance back to 0.
\<close>

theorem distance_monotone_counterexample:
  "playing same2 \<and> distanceTravelled same2 = Fin 0 \<and> distanceTravelled same3 = NaN \<and>
   \<not> js_ge (distanceTravelled same3) (distanceTravelled same2) \<and>
   playing pair3 \<and> distanceTravelled pair3 = Fin (6371000 * pi) \<and>
   distanceTravelled pair4 = Fin 0 \<and>
   \<not> js_ge (distanceTravelled pair4) (distanceTravelled pair3)"
  using pi_gt_zero by (simp add: same2_eq same3_eq pair3_eq pair4_eq not_le)

text \<open>
  C5, amended, on the binary64 callback. For every route and every state reached from it by
  clicks and frames: the frame that finds no next waypoint while the component plays puts
  the distance back to 0; a frame that finds a next waypoint leaves a distance that is
  \<open>NaN\<close> or at least the distance before, and it is \<open>NaN\<close> only when the distance before
  was \<open>NaN\<close> or the great-circle distance from the last position to the new one is.
  Both happen: on the two-waypoint route the second frame raises the distance from 0 and the
  third puts it back to 0; between the two nearly opposite waypoints, whose timestamps are
  valid, the second frame finds a great-circle distance of \<open>NaN\<close> and leaves the distance
  \<open>NaN\<close>.
\<close>

theorem distance64_nondecreasing:
  assumes "s = run64 es (loaded r)"
  shows "(playing s \<and> animationPending s \<and> route s \<noteq> [] \<and>
          \<not> currentIndex s + 1 < length (route s) \<longrightarrow>
            distanceTravelled (step64 (Frame t t') s) = Fin 0) \<and>
         (currentIndex s + 1 < length (route s) \<longrightarrow>
            (distanceTravelled (step64 (Frame t t') s) = NaN \<or>
             js_ge (distanceTravelled (step64 (Frame t t') s)) (distanceTravelled s)) \<and>
            (distanceTravelled (step64 (Frame t t') s) = NaN \<longrightarrow>
               distanceTravelled s = NaN \<or>
               (\<exists>p. lastPositionRef s = Some p \<and>
                    haversineDistance64 (fst p) (snd p)
                      (fst (position64 t s)) (snd (position64 t s)) = NaN)))"
proof -
  have d: "r64 (distanceTravelled s) = distanceTravelled s"
    unfolding assms by (intro run64_distance_rounded loaded_distance_rounded)
  have same: "distanceTravelled s = NaN \<or> js_ge (distanceTravelled s) (distanceTravelled s)"
    by (cases "distanceTravelled s") simp_all
  have grow: "(add64 (distanceTravelled s) g = NaN \<or>
        js_ge (add64 (distanceTravelled s) g) (distanceTravelled s)) \<and>
      (add64 (distanceTravelled s) g = NaN \<longrightarrow> distanceTravelled s = NaN \<or> g = NaN)"
    if g: "g = haversineDistance64 a b c e" for g a b c e
  proof (cases "g = NaN")
    case True
    then show ?thesis by (simp add: add64_def r64_def js_add_NaN_right)
  next
    case False
    then obtain h where h: "g = Fin h" "0 \<le> h"
      using haversineDistance64_range [of a b c e] g by auto
    show ?thesis
    proof (cases "distanceTravelled s = NaN")
      case True
      then show ?thesis by (simp add: add64_def r64_def)
    next
      case False
      then have "js_ge (add64 (distanceTravelled s) (Fin h)) (distanceTravelled s)"
        using d h(2) by (intro add64_not_below)
      moreover have "add64 (distanceTravelled s) (Fin h) \<noteq> NaN"
        using False add64_NaN_cases by blast
      ultimately show ?thesis using h(1) by simp
    qed
  qed
  show ?thesis
    unfolding distance_step64_frame
    using same grow by (auto split: option.splits)
qed

theorem distance64_nondecreasing_witness:
  "pairD2 = run64 [ClickPlayPause, Frame 1800000000000 1800000000000] (loaded pairRoute) \<and>
   currentIndex pairD2 + 1 < length (route pairD2) \<and>
   distanceTravelled pairD2 = Fin 0 \<and>
   (\<exists>h. distanceTravelled pairD3 = Fin h \<and> 6371000 \<le> h) \<and>
   js_ge (distanceTravelled pairD3) (distanceTravelled pairD2) \<and>
   pairD3 = run64 [ClickPlayPause, Frame 1800000000000 1800000000000,
                   Frame 1800000001000 1800000001000] (loaded pairRoute) \<and>
   playing pairD3 \<and> animationPending pairD3 \<and> route pairD3 \<noteq> [] \<and>
   \<not> currentIndex pairD3 + 1 < length (route pairD3) \<and>
   distanceTravelled pairD4 = Fin 0 \<and>
   antiD2 = run64 [ClickPlayPause, Frame 1800000000000 1800000000000] (loaded antiRoute) \<and>
   currentIndex antiD2 + 1 < length (route antiD2) \<and>
   distanceTravelled antiD2 = Fin 0 \<and> distanceTravelled antiD3 = NaN \<and>
   (\<exists>p. lastPositionRef antiD2 = Some p \<and>
        haversineDistance64 (fst p) (snd p)
          (fst (position64 1800000001000 antiD2)) (snd (position64 1800000001000 antiD2)) = NaN)"
proof -
  have r2: "pairD2 = run64 [ClickPlayPause, Frame 1800000000000 1800000000000] (loaded pairRoute)"
    by (simp only: run64.simps pairD2_def pairD1_def)
  have r3: "pairD3 = run64 [ClickPlayPause, Frame 1800000000000 1800000000000,
                   Frame 1800000001000 1800000001000] (loaded pairRoute)"
    by (simp only: run64.simps pairD3_def pairD2_def pairD1_def)
  have a2: "antiD2 = run64 [ClickPlayPause, Frame 1800000000000 1800000000000] (loaded antiRoute)"
    by (simp only: run64.simps antiD2_def antiD1_def)
  have n: "currentIndex pairD2 + 1 < length (route pairD2)"
    by (simp add: pairD2_eq pairRoute_def)
  have e: "playing pairD3" "animationPending pairD3" "route pairD3 \<noteq> []"
    "\<not> currentIndex pairD3 + 1 < length (route pairD3)"
    by (simp_all add: pairD3_fields pairRoute_def)
  have m: "currentIndex antiD2 + 1 < length (route antiD2)" "distanceTravelled antiD2 = Fin 0"
    using antiD2_fields by (simp_all add: antiRoute_def)
  have d: "distanceTravelled (step64 (Frame 1800000001000 1800000001000) antiD2) = NaN"
    using antiD3_distance by (simp only: antiD3_def)
  have p: "\<exists>p. lastPositionRef antiD2 = Some p \<and>
        haversineDistance64 (fst p) (snd p)
          (fst (position64 1800000001000 antiD2)) (snd (position64 1800000001000 antiD2)) = NaN"
    using distance64_nondecreasing [OF a2, of 1800000001000 1800000001000] m d by simp
  obtain h where h: "distanceTravelled pairD3 = Fin h" "6371000 \<le> h"
    using pairD3_distance by blast
  have k: "distanceTravelled pairD2 = Fin 0" by (simp add: pairD2_eq)
  have "distanceTravelled pairD3 = NaN \<or>
      js_ge (distanceTravelled pairD3) (distanceTravelled pairD2)"
    using distance64_nondecreasing [OF r2, of 1800000001000 1800000001000] n
    unfolding pairD3_def [symmetric] by blast
  then have q: "js_ge (distanceTravelled pairD3) (distanceTravelled pairD2)"
    using h(1) by auto
  have z: "distanceTravelled pairD4 = Fin 0"
    using distance64_nondecreasing [OF r3, of 1800000001016 1800000001016] e
    unfolding pairD4_def [symmetric] by blast
  show ?thesis
    using r2 r3 a2 n e m antiD3_distance p q z h k by blast
qed

text \<open>
  C6 (as stated: the elapsed time is the wall-clock time since playback started and is not
  re-based at segment boundaries). In the sample session the first frame runs at
  1800000000000; the frame one second later shows 1 s and crosses the segment boundary; the
  frame 16 ms after that shows 0 s, not 1.016 s.
\<close>

theorem elapsed_session_wide_counterexample:
  "elapsedTime demo2 = Fin 0 \<and> elapsedTime demo3 = Fin 1 \<and> currentIndex demo3 = 1 \<and>
   elapsedTime demo4 = Fin 0 \<and>
   elapsedTime demo4 \<noteq> Fin (real_of_int (1800000001016 - 1800000000000) / 1000)"
  using demo4_fields by (simp add: demo2_eq demo3_eq)

text \<open>
  C6, amended. The elapsed time is relative to the start time held in \<open>startTimeRef\<close>: at
  every frame of a running component it is the wall-clock time since that start time, whatever
  the timestamps of the route; the start time is set by the first frame that finds it unset,
  kept by a frame that stays on its segment, and cleared by a frame that advances the index
  (as it is by play), so the first frame of every segment shows 0.
\<close>

theorem elapsed_since_start_time:
  assumes "playing s" and "animationPending s" and "currentIndex s + 1 < length (route s)"
  shows "elapsedTime (step (Frame t t') s) = Fin (real_of_int (t - startTime t s) / 1000) \<and>
         startTimeRef (step (Frame t t') s) =
           (if currentIndex (step (Frame t t') s) = currentIndex s
            then Some (startTime t s) else None) \<and>
         (startTimeRef s = None \<longrightarrow> elapsedTime (step (Frame t t') s) = Fin 0)"
proof -
  have e: "elapsed t s = Fin (real_of_int (t - startTime t s) / 1000)"
    by (simp add: elapsed_def js_sub_def)
  have n: "startTimeRef s = None \<Longrightarrow> startTime t s = t" by (simp add: startTime_def)
  show ?thesis
    unfolding step_frame_running [OF assms]
    using e n by (auto simp add: sampled_def split: option.splits)
qed

theorem elapsed_since_start_time_witness:
  "playing demo3 \<and> animationPending demo3 \<and> currentIndex demo3 + 1 < length (route demo3) \<and>
   startTimeRef demo3 = None \<and> elapsedTime demo4 = Fin 0 \<and>
   startTimeRef demo4 = Some 1800000001016"
proof -
  have h: "playing demo3" "animationPending demo3" "currentIndex demo3 + 1 < length (route demo3)"
    by (simp_all add: demo3_eq demoRoute_def)
  have n: "startTimeRef demo3 = None" by (simp add: demo3_eq)
  show ?thesis
    using elapsed_since_start_time [OF h, of 1800000001016 1800000001016] h n demo4_fields
    unfolding demo4_def [symmetric] by simp
qed

text \<open>
  C7, on the code. On the two-waypoint route the first frame runs at clock 1800000000000 and
  the second one second later, moving the vehicle by 6371000 * pi metres. The first frame
  has stored the timestamp of the current waypoint, 1700000000000, as the last timestamp, so
  the second frame divides by 100000001 s, not by the 1 s since the last sample.
\<close>

theorem speed_uses_waypoint_timestamp:
  "lastTimestampRef pair2 = Some 1700000000000 \<and>
   secDiff 1800000001000 pair2 = Fin 100000001 \<and>
   distanceTravelled pair3 = Fin (6371000 * pi) \<and>
   speed pair3 = Fin (6371000 * pi / 100000001) \<and>
   speed pair3 \<noteq> Fin (6371000 * pi / 1)"
  by (simp add: pair2_eq pair3_eq secDiff_def getTime_def js_sub_def)

text \<open>
  C8 (as stated: every tick after the first sample of a session adds the great-circle
  distance from the previous sample to the new position). In the two-waypoint session the
  second frame leaves a distance of at least 6371000 and the last position \<open>(0, 180)\<close>; the
  frame after it finds no next waypoint, computes no position and puts the distance back to 0
  instead of adding to it.
\<close>

theorem terminal_tick_counterexample:
  "playing pairD3 \<and> animationPending pairD3 \<and>
   lastPositionRef pairD3 = Some (Fin 0, Fin 180) \<and>
   (\<exists>h. distanceTravelled pairD3 = Fin h \<and> 6371000 \<le> h) \<and>
   pairD4 = step64 (Frame 1800000001016 1800000001016) pairD3 \<and>
   distanceTravelled pairD4 = Fin 0 \<and> lastPositionRef pairD4 = None \<and>
   \<not> js_ge (distanceTravelled pairD4) (distanceTravelled pairD3)"
proof -
  obtain h where h: "distanceTravelled pairD3 = Fin h" "6371000 \<le> h"
    using pairD3_distance by blast
  have z: "distanceTravelled pairD4 = Fin 0" "lastPositionRef pairD4 = None"
    by (simp_all add: pairD4_eq)
  have "\<not> js_ge (distanceTravelled pairD4) (distanceTravelled pairD3)"
    using h z by simp
  then show ?thesis using h z pairD3_fields pairD4_def by auto
qed

text \<open>
  C8, amended, on the binary64 callback. A frame of a playing component whose frame is
  outstanding either finds a next waypoint: then it stores the interpolated position as the
  last position and adds to the distance, by one rounded addition, the great-circle distance
  from the previous last position to it, or nothing when there is no previous last position;
  or it finds none: then it puts the distance back to 0 and clears the last position. Any
  other frame changes neither. The great-circle distance is the haversine formula with radius
  6371000, every operation rounded. The first frame of a session adds nothing.
\<close>

theorem distance64_increment:
  assumes "\<not> playing (run64 es (loaded r))"
  shows "distanceTravelled (step64 (Frame t t') s) =
           (if animationPending s \<and> playing s \<and> route s \<noteq> []
            then if currentIndex s + 1 < length (route s)
                 then case lastPositionRef s of
                        None \<Rightarrow> distanceTravelled s
                      | Some p \<Rightarrow>
                          add64 (distanceTravelled s)
                            (haversineDistance64 (fst p) (snd p)
                               (fst (position64 t s)) (snd (position64 t s)))
                 else Fin 0
            else distanceTravelled s) \<and>
         lastPositionRef (step64 (Frame t t') s) =
           (if animationPending s \<and> playing s \<and> route s \<noteq> []
            then if currentIndex s + 1 < length (route s) then Some (position64 t s) else None
            else lastPositionRef s) \<and>
         haversineDistance64 lat1 lon1 lat2 lon2 =
           mul64 (Fin 6371000)
             (mul64 (Fin 2)
                (atan2_64 (sqrt64 (hav_a64 lat1 lon1 lat2 lon2))
                   (sqrt64 (sub64 (Fin 1) (hav_a64 lat1 lon1 lat2 lon2))))) \<and>
         lastPositionRef (step64 ClickPlayPause (run64 es (loaded r))) = None \<and>
         distanceTravelled (step64 (Frame u u') (step64 ClickPlayPause (run64 es (loaded r)))) =
           distanceTravelled (run64 es (loaded r))"
proof -
  have z: "zeroed (run64 es (loaded r))"
    using run64_stopped_zeroed [of "loaded r" es] assms by (simp add: loaded_zeroed)
  have c: "lastPositionRef (step64 ClickPlayPause (run64 es (loaded r))) = None"
    using z assms
    by (cases "route (run64 es (loaded r)) = []") (simp_all add: zeroed_def clickPlayPause_play)
  have f: "haversineDistance64 lat1 lon1 lat2 lon2 =
      mul64 (Fin 6371000)
        (mul64 (Fin 2)
           (atan2_64 (sqrt64 (hav_a64 lat1 lon1 lat2 lon2))
              (sqrt64 (sub64 (Fin 1) (hav_a64 lat1 lon1 lat2 lon2)))))"
    by (simp add: haversineDistance64_def hav_a64_def Let_def)
  show ?thesis
    using c f first_frame64_distance [OF assms z]
    by (simp only: distance_step64_frame lastPosition_step64_frame simp_thms)
qed

theorem distance64_increment_witness:
  "\<not> playing (run64 [] (loaded pairRoute)) \<and>
   animationPending pairD2 \<and> playing pairD2 \<and> route pairD2 \<noteq> [] \<and>
   currentIndex pairD2 + 1 < length (route pairD2) \<and>
   lastPositionRef pairD2 = Some (Fin 0, Fin 0) \<and>
   position64 1800000001000 pairD2 = (Fin 0, Fin 180) \<and>
   lastPositionRef pairD3 = Some (Fin 0, Fin 180) \<and>
   distanceTravelled pairD3 =
     add64 (distanceTravelled pairD2) (haversineDistance64 (Fin 0) (Fin 0) (Fin 0) (Fin 180)) \<and>
   lastPositionRef pairD1 = None \<and>
   distanceTravelled pairD2 = distanceTravelled (loaded pairRoute)"
proof -
  have l: "\<not> playing (run64 [] (loaded pairRoute))" by (simp add: loaded_eq mounted_def)
  have h: "animationPending pairD2" "playing pairD2" "route pairD2 \<noteq> []"
    "currentIndex pairD2 + 1 < length (route pairD2)"
    "lastPositionRef pairD2 = Some (Fin 0, Fin 0)"
    by (simp_all add: pairD2_eq pairRoute_def)
  note p = pairD2_position
  show ?thesis
    using distance64_increment [OF l, of 1800000001000 1800000001000 pairD2 "Fin 0" "Fin 0"
        "Fin 0" "Fin 0" 1800000000000 1800000000000] l h p
    unfolding run64.simps pairD1_def [symmetric] pairD2_def [symmetric] pairD3_def [symmetric]
    by simp
qed

text \<open>
  C9 (as stated: at progress 1 the interpolation returns exactly the next waypoint). From
  the waypoint at 0.7 to the waypoint at 0.1 the three roundings of
  \<open>0.7 + (0.1 - 0.7) * 1\<close> leave \<open>900719925474099 / 2 ^ 53\<close>, which is
  0.09999999999999998 and not the double of 0.1.
\<close>

theorem interpolate64_counterexample:
  "fl (7 / 10) = Fin (latitude pointA) \<and> fl (1 / 10) = Fin (latitude pointB) \<and>
   fst (interpolate64 pointA pointB (Fin 1)) = Fin (900719925474099 / 2 ^ 53) \<and>
   fst (interpolate64 pointA pointB (Fin 1)) \<noteq> Fin (latitude pointB)"
proof -
  have "fl (7 / 10) = Fin (real_of_int 6305039478318694 / 2 ^ 53)"
    by (rule fl_eqI) simp_all
  moreover have "fl (1 / 10) = Fin (real_of_int 7205759403792794 / 2 ^ 56)"
    by (rule fl_eqI) simp_all
  ultimately show ?thesis
    using lerp64_sample by (simp add: interpolate64_def pointA_def pointB_def)
qed

text \<open>
  C9, amended, in binary64. The frame callback and the render both compute their position
  with \<open>interpolate64\<close>, which takes each coordinate on its own through
  \<open>current + (next - current) * progress\<close>, every operation rounded. For waypoints whose
  coordinates are at most 180 in magnitude, those of the current waypoint being doubles: at
  progress 0 the result is exactly the current waypoint, and at progress 1 it is the next
  waypoint up to the roundings, within \<open>(\<bar>next\<bar> + \<bar>next - current\<bar>) / 2 ^ 52 + 2 ^ -1073\<close>
  in each coordinate.
\<close>

theorem interpolate64_endpoints:
  assumes "isDouble (latitude current)" and "isDouble (longitude current)"
    and "\<bar>latitude current\<bar> \<le> 180" and "\<bar>longitude current\<bar> \<le> 180"
    and "\<bar>latitude next\<bar> \<le> 180" and "\<bar>longitude next\<bar> \<le> 180"
  shows "interpolate64 current next p =
           (add64 (Fin (latitude current))
              (mul64 (sub64 (Fin (latitude next)) (Fin (latitude current))) p),
            add64 (Fin (longitude current))
              (mul64 (sub64 (Fin (longitude next)) (Fin (longitude current))) p)) \<and>
         position64 t s =
           interpolate64 (route s ! currentIndex s) (route s ! (currentIndex s + 1))
             (progress64 t s) \<and>
         renderPosition64 (s\<lparr>route := current # next # rest, currentIndex := 0\<rparr>) =
           Some (interpolate64 current next (progressRef s)) \<and>
         interpolate64 current next (Fin 0) = (Fin (latitude current), Fin (longitude current)) \<and>
         (\<exists>x y. interpolate64 current next (Fin 1) = (Fin x, Fin y) \<and>
            \<bar>x - latitude next\<bar> \<le>
              (\<bar>latitude next\<bar> + \<bar>latitude next - latitude current\<bar>) / 2 ^ 52 + 1 / 2 ^ 1073 \<and>
            \<bar>y - longitude next\<bar> \<le>
              (\<bar>longitude next\<bar> + \<bar>longitude next - longitude current\<bar>) / 2 ^ 52 + 1 / 2 ^ 1073)"
proof -
  have z: "interpolate64 current next (Fin 0) = (Fin (latitude current), Fin (longitude current))"
    using assms by (simp add: interpolate64_def lerp64_zero)
  obtain x where x: "add64 (Fin (latitude current))
        (mul64 (sub64 (Fin (latitude next)) (Fin (latitude current))) (Fin 1)) = Fin x"
      "\<bar>x - latitude next\<bar> \<le>
        (\<bar>latitude next\<bar> + \<bar>latitude next - latitude current\<bar>) / 2 ^ 52 + 1 / 2 ^ 1073"
    using lerp64_one [OF assms(3,5)] by blast
  obtain y where y: "add64 (Fin (longitude current))
        (mul64 (sub64 (Fin (longitude next)) (Fin (longitude current))) (Fin 1)) = Fin y"
      "\<bar>y - longitude next\<bar> \<le>
        (\<bar>longitude next\<bar> + \<bar>longitude next - longitude current\<bar>) / 2 ^ 52 + 1 / 2 ^ 1073"
    using lerp64_one [OF assms(4,6)] by blast
  have o: "interpolate64 current next (Fin 1) = (Fin x, Fin y)"
    using x(1) y(1) by (simp add: interpolate64_def)
  have r: "renderPosition64 (s\<lparr>route := current # next # rest, currentIndex := 0\<rparr>) =
      Some (interpolate64 current next (progressRef s))"
    by (simp add: renderPosition64_def)
  have d: "interpolate64 current next p =
      (add64 (Fin (latitude current))
         (mul64 (sub64 (Fin (latitude next)) (Fin (latitude current))) p),
       add64 (Fin (longitude current))
         (mul64 (sub64 (Fin (longitude next)) (Fin (longitude current))) p))"
    by (simp add: interpolate64_def)
  have e: "\<exists>x y. interpolate64 current next (Fin 1) = (Fin x, Fin y) \<and>
      \<bar>x - latitude next\<bar> \<le>
        (\<bar>latitude next\<bar> + \<bar>latitude next - latitude current\<bar>) / 2 ^ 52 + 1 / 2 ^ 1073 \<and>
      \<bar>y - longitude next\<bar> \<le>
        (\<bar>longitude next\<bar> + \<bar>longitude next - longitude current\<bar>) / 2 ^ 52 + 1 / 2 ^ 1073"
    using o x(2) y(2) by blast
  show ?thesis
    by (intro conjI d position64_def r z e)
qed

theorem interpolate64_endpoints_witness:
  "isDouble (latitude pointA) \<and> isDouble (longitude pointA) \<and>
   \<bar>latitude pointA\<bar> \<le> 180 \<and> \<bar>longitude pointA\<bar> \<le> 180 \<and>
   \<bar>latitude pointB\<bar> \<le> 180 \<and> \<bar>longitude pointB\<bar> \<le> 180 \<and>
   interpolate64 pointA pointB (Fin 0) = (Fin (latitude pointA), Fin (longitude pointA)) \<and>
   (\<exists>x y. interpolate64 pointA pointB (Fin 1) = (Fin x, Fin y) \<and>
      \<bar>x - latitude pointB\<bar> \<le>
        (\<bar>latitude pointB\<bar> + \<bar>latitude pointB - latitude pointA\<bar>) / 2 ^ 52 + 1 / 2 ^ 1073 \<and>
      \<bar>y - longitude pointB\<bar> \<le>
        (\<bar>longitude pointB\<bar> + \<bar>longitude pointB - longitude pointA\<bar>) / 2 ^ 52 + 1 / 2 ^ 1073)"
proof -
  have h: "isDouble (latitude pointA)" "isDouble (longitude pointA)"
    "\<bar>latitude pointA\<bar> \<le> 180" "\<bar>longitude pointA\<bar> \<le> 180"
    "\<bar>latitude pointB\<bar> \<le> 180" "\<bar>longitude pointB\<bar> \<le> 180"
    using pointA_double by (simp_all add: pointA_def pointB_def)
  show ?thesis
    using interpolate64_endpoints [OF h] h by blast
qed




end
